theory Spec2Isabelle
  imports Complex_Main
begin

section \<open>JavaScript values used by the migration scripts\<close>

text \<open>
  A JavaScript number is an IEEE double. The model keeps NaN and the two infinities
  apart from the finite values and computes on finite values with exact rational
  arithmetic. This agrees with the double arithmetic on every integer the scripts
  meet (indices, batch sizes and positions below \<open>2^53\<close>); rounding of non-representable
  fractions and the sign of zero are not modelled.
\<close>

datatype js_number = NaN | NegInfinity | Fin rat | PosInfinity

text \<open>The operator \<open>+\<close> on two numbers.\<close>

fun js_add :: "js_number \<Rightarrow> js_number \<Rightarrow> js_number" where
  "js_add NaN _ = NaN"
| "js_add _ NaN = NaN"
| "js_add (Fin a) (Fin b) = Fin (a + b)"
| "js_add PosInfinity NegInfinity = NaN"
| "js_add NegInfinity PosInfinity = NaN"
| "js_add PosInfinity _ = PosInfinity"
| "js_add _ PosInfinity = PosInfinity"
| "js_add NegInfinity _ = NegInfinity"
| "js_add _ NegInfinity = NegInfinity"

text \<open>The operator \<open><\<close> on two numbers: false as soon as one side is NaN.\<close>

fun js_less :: "js_number \<Rightarrow> js_number \<Rightarrow> bool" where
  "js_less NaN _ = False"
| "js_less _ NaN = False"
| "js_less (Fin a) (Fin b) = (a < b)"
| "js_less NegInfinity NegInfinity = False"
| "js_less NegInfinity _ = True"
| "js_less _ NegInfinity = False"
| "js_less PosInfinity _ = False"
| "js_less _ PosInfinity = True"

text \<open>The operator \<open>/\<close> and \<open>Math.floor\<close>, used for the batch number in the log.\<close>

fun js_div :: "js_number \<Rightarrow> js_number \<Rightarrow> js_number" where
  "js_div NaN _ = NaN"
| "js_div _ NaN = NaN"
| "js_div (Fin a) (Fin b) =
     (if b = 0 then (if a = 0 then NaN else if 0 < a then PosInfinity else NegInfinity)
      else Fin (a / b))"
| "js_div (Fin a) _ = Fin 0"
| "js_div PosInfinity (Fin b) = (if b < 0 then NegInfinity else PosInfinity)"
| "js_div NegInfinity (Fin b) = (if b < 0 then PosInfinity else NegInfinity)"
| "js_div _ _ = NaN"

fun Math_floor :: "js_number \<Rightarrow> js_number" where
  "Math_floor (Fin a) = Fin (of_int \<lfloor>a\<rfloor>)"
| "Math_floor x = x"

text \<open>A number is falsy when it is zero or NaN (the left operand of \<open>||\<close>).\<close>

fun falsy_number :: "js_number \<Rightarrow> bool" where
  "falsy_number NaN = True"
| "falsy_number (Fin a) = (a = 0)"
| "falsy_number _ = False"

text \<open>
  \<open>Array.prototype.slice(start, end)\<close>: each bound is truncated towards zero
  (NaN counts as 0), a negative bound counts from the end of the array, and both are
  clamped to the array.
\<close>

fun relative_index :: "js_number \<Rightarrow> nat \<Rightarrow> nat" where
  "relative_index NaN len = 0"
| "relative_index NegInfinity len = 0"
| "relative_index PosInfinity len = len"
| "relative_index (Fin q) len =
     (let k = (if 0 \<le> q then \<lfloor>q\<rfloor> else \<lceil>q\<rceil>)
      in if k < 0 then nat (max (int len + k) 0) else min (nat k) len)"

definition slice :: "'a list \<Rightarrow> js_number \<Rightarrow> js_number \<Rightarrow> 'a list" where
  "slice xs start end' =
     (let k = relative_index start (length xs);
          final = relative_index end' (length xs)
      in take (final - k) (drop k xs))"

text \<open>\<open>Array.prototype.map\<close> hands the callback the element and its index in the array.\<close>

definition js_map :: "('a \<Rightarrow> nat \<Rightarrow> 'b) \<Rightarrow> 'a list \<Rightarrow> 'b list" where
  "js_map f xs = map (\<lambda>(index, x). f x index) (enumerate 0 xs)"

section \<open>Source and destination records\<close>

text \<open>\<open>ZohoTask\<close> and \<open>TwentyTask\<close> of taskMigration.ts.\<close>

record ZohoTask =
  task_id :: string
  Subject :: string
  Status :: string
  Due_Date :: string
  task_Owner :: "(string \<times> string) option"
  Modified_Time :: "string option"
  Created_Time :: "string option"

text \<open>
  The value found under a key of the object literal \<open>statusMap\<close>: one of its own
  strings, or a member inherited from \<open>Object.prototype\<close> (a function or object,
  named here by its key).
\<close>

datatype status_value = StatusString string | PrototypeMember string

record TwentyTask =
  title :: string
  status :: status_value
  dueAt :: string
  position :: js_number

text \<open>\<open>ZohoContact\<close> and \<open>TwentyContact\<close> of the contact migration script.\<close>

record ZohoContact =
  contact_id :: string
  First_Name :: string
  Last_Name :: string
  Email :: string
  Phone :: string
  Mobile :: string
  contact_Owner :: "(string \<times> string \<times> string) option"
  Created_By :: "string \<times> string \<times> string"
  Mailing_City :: string
  Title :: string
  Record_Image :: string
  Mailing_Country :: string

record contact_name =
  firstName :: string
  lastName :: string

record contact_emails =
  primaryEmail :: string
  additionalEmails :: "string list option"

record contact_link =
  primaryLinkLabel :: "string option"
  primaryLinkUrl :: "string option"
  secondaryLinks :: "(string \<times> string) list option"

record contact_phones =
  primaryPhoneNumber :: string
  primaryPhoneCountryCode :: "string option"
  additionalPhones :: "string list option"

record TwentyContact =
  name :: contact_name
  emails :: contact_emails
  linkedinLink :: "contact_link option"
  xLink :: "contact_link option"
  jobTitle :: "string option"
  phones :: contact_phones
  city :: "string option"
  avatarUrl :: "string option"
  contact_position :: js_number
  createdBy_source :: string
  companyId :: "string option"

section \<open>Field mapping\<close>

subsection \<open>Task status\<close>

text \<open>The object literal \<open>statusMap\<close> of \<open>mapStatus\<close>, with its own keys.\<close>

definition statusMap :: "(string \<times> string) list" where
  "statusMap =
     [(''Open'', ''TODO''),
      (''In Progress'', ''IN_PROGESS''),
      (''Completed'', ''DONE'')]"

text \<open>
  The keys every object literal inherits from \<open>Object.prototype\<close>; each of them holds
  a function or an object, hence a truthy value.
\<close>

definition Object_prototype_keys :: "string list" where
  "Object_prototype_keys =
     [''constructor'', ''hasOwnProperty'', ''isPrototypeOf'', ''propertyIsEnumerable'',
      ''toLocaleString'', ''toString'', ''valueOf'', ''__proto__'',
      ''__defineGetter__'', ''__defineSetter__'', ''__lookupGetter__'', ''__lookupSetter__'']"

text \<open>
  \<open>statusMap[zohoStatus] || 'TODO'\<close>: an own key wins, then the prototype chain; a
  missing key gives \<open>undefined\<close> and an empty string is falsy, so both yield \<open>'TODO'\<close>.
\<close>

definition mapStatus :: "string \<Rightarrow> status_value" where
  "mapStatus zohoStatus =
     (case map_of statusMap zohoStatus of
        Some v \<Rightarrow> (if v = [] then StatusString ''TODO'' else StatusString v)
      | None \<Rightarrow>
          (if zohoStatus \<in> set Object_prototype_keys then PrototypeMember zohoStatus
           else StatusString ''TODO''))"

subsection \<open>Contacts\<close>

text \<open>
  \<open>mapToTwentyContact(zohoContact, index)\<close>. The fields \<open>xLink\<close>, \<open>avatarUrl\<close> and
  \<open>companyId\<close> are not set; \<open>linkedinLink\<close> is the empty object.
\<close>

definition mapToTwentyContact :: "ZohoContact \<Rightarrow> nat \<Rightarrow> TwentyContact" where
  "mapToTwentyContact zohoContact index =
     \<lparr> name = \<lparr> firstName = First_Name zohoContact, lastName = Last_Name zohoContact \<rparr>,
       emails = \<lparr> primaryEmail = Email zohoContact, additionalEmails = Some [] \<rparr>,
       linkedinLink =
         Some \<lparr> primaryLinkLabel = None, primaryLinkUrl = None, secondaryLinks = None \<rparr>,
       xLink = None,
       jobTitle = Some (Title zohoContact),
       phones =
         \<lparr> primaryPhoneNumber = Phone zohoContact,
           primaryPhoneCountryCode = Some (Mailing_Country zohoContact),
           additionalPhones = Some [Mobile zohoContact] \<rparr>,
       city = Some (Mailing_City zohoContact),
       avatarUrl = None,
       contact_position = js_add (Fin (of_nat index)) (Fin 1),
       createdBy_source = ''EMAIL'',
       companyId = None \<rparr>"

subsection \<open>Tasks\<close>

text \<open>
  What the scripts use of the JavaScript runtime and of the zod library, as parameters:
  \<^item> \<open>Date_parse s\<close> is the time value (milliseconds since the epoch) of \<open>new Date(s)\<close>,
    and \<open>None\<close> when that date is invalid (its \<open>getTime()\<close> is NaN);
  \<^item> \<open>toISOString t\<close> is \<open>toISOString()\<close> of the date with time value \<open>t\<close>;
  \<^item> \<open>Number s\<close> is the conversion \<open>Number(s)\<close> of a string;
  \<^item> \<open>url_valid s\<close> says whether zod's \<open>z.string().url()\<close> accepts \<open>s\<close>.
\<close>

record js_runtime =
  Date_parse :: "string \<Rightarrow> int option"
  toISOString :: "int \<Rightarrow> string"
  Number :: "string \<Rightarrow> js_number"
  url_valid :: "string \<Rightarrow> bool"

text \<open>
  \<open>validateDate(date)\<close>. The expression \<open>new Date()\<close> reads the wall clock; its
  reading is the argument \<open>now\<close>.
\<close>

definition validateDate :: "js_runtime \<Rightarrow> int \<Rightarrow> string \<Rightarrow> string" where
  "validateDate rt now date =
     (case Date_parse rt date of
        None \<Rightarrow> toISOString rt now
      | Some parsed \<Rightarrow> toISOString rt parsed)"

definition mapToTwentyTask :: "js_runtime \<Rightarrow> int \<Rightarrow> ZohoTask \<Rightarrow> js_number \<Rightarrow> TwentyTask" where
  "mapToTwentyTask rt now zohoTask pos =
     \<lparr> title = Subject zohoTask,
       status = mapStatus (Status zohoTask),
       dueAt = validateDate rt now (Due_Date zohoTask),
       position = pos \<rparr>"

section \<open>Errors, effects and the outside world\<close>

text \<open>
  What a \<open>catch\<close> around an axios call can receive: an \<open>AxiosError\<close> with its message
  and, when the server answered, the response's status and the \<open>message\<close> member of
  its body; or the \<open>TypeError\<close> of a property read on \<open>null\<close>.
\<close>

datatype caught_error =
  AxiosError string "(nat \<times> string option) option"
| CaughtTypeError string

text \<open>
  The errors that leave a function of the scripts: \<open>new Error(message)\<close>, which has
  a message and nothing else, a \<open>TypeError\<close>, and zod's error with the names of the
  fields that failed.
\<close>

datatype js_error = Error string | TypeError string | ZodError "string list"

text \<open>
  Log records. A template literal is kept as its pieces; an interpolated number stays
  a number (\<open>None\<close> is \<open>undefined\<close>).
\<close>

datatype fragment = Text string | Num "js_number option"

datatype log_meta =
  ApiMeta nat string
| ErrorMeta js_error
| ZodMeta "string list"

datatype log_entry =
  logger_info "fragment list"
| logger_error string log_meta
| console_log string

record axios_instance =
  baseURL :: string
  timeout :: nat
  Authorization :: string
  maxRPS :: js_number

text \<open>
  Everything a run does to the outside: the instances it creates, the paths it GETs
  from the source, the bodies it POSTs to the destination, what it logs, and how many
  one-second pauses it has sat through.
\<close>

record 'd effects =
  clients :: "axios_instance list"
  zoho_requests :: "string list"
  twenty_requests :: "(string \<times> 'd list) list"
  log :: "log_entry list"
  delays :: nat

definition no_effects :: "'d effects" where
  "no_effects =
     \<lparr> clients = [], zoho_requests = [], twenty_requests = [], log = [], delays = 0 \<rparr>"

text \<open>
  The value of \<open>response.data.data\<close> after a successful GET: the JSON values a body can
  hold under \<open>data\<close>. \<open>JPlainObject\<close> is an object that is no array and has no member
  \<open>length\<close>; strings and objects with such a member are not modelled.
\<close>

datatype 'r js_data =
  JUndefined
| JNull
| JNumber js_number
| JBoolean bool
| JPlainObject
| JArray "'r list"

text \<open>
  The outcome of the GET: the promise rejects, or it resolves with a response whose
  \<open>data\<close> is \<open>null\<close>, or with one whose \<open>data.data\<close> evaluates to a value.
\<close>

datatype 'r get_outcome =
  GetRejects string "(nat \<times> string option) option"
| GetResolvesNull
| GetResolves "'r js_data"

text \<open>
  The inputs of a run: the environment variables (\<open>process.env\<close> once
  \<open>dotenv.config()\<close> has loaded the file \<open>.env\<close>), the outcome of the one GET, the
  outcome of the \<open>k\<close>-th POST (counted from 0; \<open>None\<close> when it resolves, otherwise the
  \<open>AxiosError\<close> it rejects with), and the wall clock read while the record that
  receives position \<open>p\<close> is mapped.
\<close>

record 'r world =
  process_env :: "string \<Rightarrow> string option"
  zoho_get :: "'r get_outcome"
  twenty_post :: "nat \<Rightarrow> (string \<times> (nat \<times> string option) option) option"
  clock :: "js_number \<Rightarrow> int"

section \<open>The HTTP layer\<close>

text \<open>
  \<open>createAxiosInstance(baseURL, apiKey, isZoho)\<close>. The cap is read from the
  environment, not from the validated configuration: \<open>Number(undefined)\<close> is NaN.
\<close>

definition createAxiosInstance ::
  "js_runtime \<Rightarrow> (string \<Rightarrow> string option) \<Rightarrow> string \<Rightarrow> string \<Rightarrow> bool \<Rightarrow> axios_instance" where
  "createAxiosInstance rt env url apiKey isZoho =
     \<lparr> baseURL = url,
       timeout = 10000,
       Authorization = (if isZoho then ''Zoho-oauthtoken '' @ apiKey else ''Bearer '' @ apiKey),
       maxRPS =
         (let n = (case env ''RATE_LIMIT_PER_SECOND'' of None \<Rightarrow> NaN | Some s \<Rightarrow> Number rt s)
          in if falsy_number n then Fin 5 else n) \<rparr>"

text \<open>\<open>error.response?.status\<close>, \<open>error.response?.data?.message\<close> and \<open>error.message\<close>.\<close>

fun response_status :: "caught_error \<Rightarrow> nat option" where
  "response_status (AxiosError m (Some (st, dm))) = Some st"
| "response_status _ = None"

fun response_data_message :: "caught_error \<Rightarrow> string option" where
  "response_data_message (AxiosError m (Some (st, dm))) = dm"
| "response_data_message _ = None"

fun error_message :: "caught_error \<Rightarrow> string" where
  "error_message (AxiosError m r) = m"
| "error_message (CaughtTypeError m) = m"

text \<open>
  \<open>handleApiError(error)\<close>. Every value of \<open>caught_error\<close> is an object, hence truthy:
  the function logs and throws the new \<open>Error\<close>. The operator \<open>||\<close> skips a status 0
  and an empty message.
\<close>

definition handleApiError :: "caught_error \<Rightarrow> 'd effects \<Rightarrow> 'd effects \<times> js_error" where
  "handleApiError error st =
     (let statusCode =
            (case response_status error of
               None \<Rightarrow> 500
             | Some s \<Rightarrow> if s = 0 then 500 else s);
          message =
            (case response_data_message error of
               None \<Rightarrow> error_message error
             | Some m \<Rightarrow> if m = [] then error_message error else m)
      in (st\<lparr>log := log st @ [logger_error ''API Error'' (ApiMeta statusCode message)]\<rparr>,
          Error (''API Error: '' @ message)))"

text \<open>\<open>fetchZohoTasks\<close> and \<open>fetchZohoContacts\<close>.\<close>

definition fetchZohoTasks :: "'r world \<Rightarrow> 'd effects \<Rightarrow> 'd effects \<times> (js_error + 'r js_data)" where
  "fetchZohoTasks w st =
     (let st1 = st\<lparr>zoho_requests := zoho_requests st @ [''/crm/v2/Tasks'']\<rparr>
      in case zoho_get w of
           GetRejects m r \<Rightarrow>
             (case handleApiError (AxiosError m r) st1 of (st2, e) \<Rightarrow> (st2, Inl e))
         | GetResolvesNull \<Rightarrow>
             (case handleApiError
                     (CaughtTypeError ''Cannot read properties of null (reading 'data')'') st1
              of (st2, e) \<Rightarrow> (st2, Inl e))
         | GetResolves d \<Rightarrow> (st1, Inr d))"

definition fetchZohoContacts :: "'r world \<Rightarrow> 'd effects \<Rightarrow> 'd effects \<times> (js_error + 'r js_data)" where
  "fetchZohoContacts w st =
     (let st1 = st\<lparr>zoho_requests := zoho_requests st @ [''/crm/v2/Contacts'']\<rparr>
      in case zoho_get w of
           GetRejects m r \<Rightarrow>
             (case handleApiError (AxiosError m r) st1 of (st2, e) \<Rightarrow> (st2, Inl e))
         | GetResolvesNull \<Rightarrow>
             (case handleApiError
                     (CaughtTypeError ''Cannot read properties of null (reading 'data')'') st1
              of (st2, e) \<Rightarrow> (st2, Inl e))
         | GetResolves d \<Rightarrow>
             (st1\<lparr>log := log st1 @ [console_log ''response.data.data'']\<rparr>, Inr d))"

text \<open>\<open>createTwentyTasks\<close> and \<open>createTwentyContacts\<close>: one POST, no retry.\<close>

definition createTwentyTasks ::
  "'r world \<Rightarrow> TwentyTask list \<Rightarrow> TwentyTask effects \<Rightarrow> TwentyTask effects \<times> (js_error + unit)" where
  "createTwentyTasks w tasks st =
     (let st1 = st\<lparr>log := log st @ [console_log ''tasks''],
                    twenty_requests := twenty_requests st @ [(''/batch/tasks'', tasks)]\<rparr>
      in case twenty_post w (length (twenty_requests st)) of
           None \<Rightarrow> (st1, Inr ())
         | Some (m, r) \<Rightarrow>
             (case handleApiError (AxiosError m r) st1 of (st2, e) \<Rightarrow> (st2, Inl e)))"

definition createTwentyContacts ::
  "'r world \<Rightarrow> TwentyContact list \<Rightarrow> TwentyContact effects
     \<Rightarrow> TwentyContact effects \<times> (js_error + unit)" where
  "createTwentyContacts w contacts st =
     (let st1 = st\<lparr>twenty_requests := twenty_requests st @ [(''/batch/people'', contacts)]\<rparr>
      in case twenty_post w (length (twenty_requests st)) of
           None \<Rightarrow> (st1, Inr ())
         | Some (m, r) \<Rightarrow>
             (case handleApiError (AxiosError m r) st1 of (st2, e) \<Rightarrow> (st2, Inl e)))"

section \<open>Batch processing\<close>

text \<open>
  \<open>x.length\<close> and \<open>x.slice(start, end)\<close> on the fetched value: a \<open>TypeError\<close> on
  \<open>undefined\<close> and \<open>null\<close>; \<open>length\<close> is \<open>undefined\<close> and \<open>slice\<close> is no function
  on a number, a boolean or a plain object (\<open>var\<close> is the name of the variable read).
\<close>

fun js_length :: "'r js_data \<Rightarrow> js_error + js_number option" where
  "js_length JUndefined =
     Inl (TypeError ''Cannot read properties of undefined (reading 'length')'')"
| "js_length JNull = Inl (TypeError ''Cannot read properties of null (reading 'length')'')"
| "js_length (JArray xs) = Inr (Some (Fin (of_nat (length xs))))"
| "js_length _ = Inr None"

fun js_slice :: "string \<Rightarrow> 'r js_data \<Rightarrow> js_number \<Rightarrow> js_number \<Rightarrow> js_error + 'r list" where
  "js_slice var JUndefined start end' =
     Inl (TypeError ''Cannot read properties of undefined (reading 'slice')'')"
| "js_slice var JNull start end' =
     Inl (TypeError ''Cannot read properties of null (reading 'slice')'')"
| "js_slice var (JArray xs) start end' = Inr (slice xs start end')"
| "js_slice var _ start end' = Inl (TypeError (var @ ''.slice is not a function''))"

text \<open>\<open>undefined\<close> becomes NaN when it is compared with a number.\<close>

fun ToNumber :: "js_number option \<Rightarrow> js_number" where
  "ToNumber None = NaN"
| "ToNumber (Some n) = n"

text \<open>
  The expression \<open>batch.map((task, index) => mapToTwentyTask(task, startIndex + index + 1))\<close>
  of \<open>processBatch\<close> in taskMigration.ts: the record at \<open>index\<close> of the batch gets the
  position \<open>startIndex + index + 1\<close>.
\<close>

definition map_batch ::
  "js_runtime \<Rightarrow> ZohoTask world \<Rightarrow> js_number \<Rightarrow> ZohoTask list \<Rightarrow> TwentyTask list" where
  "map_batch rt w startIndex batch =
     js_map (\<lambda>task index.
         mapToTwentyTask rt
           (clock w (js_add (js_add startIndex (Fin (of_nat index))) (Fin 1)))
           task
           (js_add (js_add startIndex (Fin (of_nat index))) (Fin 1)))
       batch"

text \<open>\<open>processBatch\<close> of taskMigration.ts.\<close>

definition processBatch ::
  "js_runtime \<Rightarrow> ZohoTask world \<Rightarrow> ZohoTask js_data \<Rightarrow> js_number \<Rightarrow> js_number
     \<Rightarrow> TwentyTask effects \<Rightarrow> TwentyTask effects \<times> (js_error + unit)" where
  "processBatch rt w tasks startIndex batchSize st =
     (case js_slice ''tasks'' tasks startIndex (js_add startIndex batchSize) of
        Inl e \<Rightarrow> (st, Inl e)
      | Inr batch \<Rightarrow>
          (let twentyTasks = map_batch rt w startIndex batch
           in case createTwentyTasks w twentyTasks st of
                (st1, Inl e) \<Rightarrow> (st1, Inl e)
              | (st1, Inr u) \<Rightarrow>
                  (st1\<lparr>log := log st1 @
                         [logger_info
                            [Text ''Processed batch '',
                             Num (Some (js_add (Math_floor (js_div startIndex batchSize)) (Fin 1)))]],
                       delays := delays st1 + 1\<rparr>,
                   Inr ())))"

text \<open>
  \<open>processBatch\<close> of the contact script: \<open>batch.map(mapToTwentyContact)\<close> hands
  \<open>mapToTwentyContact\<close> the index inside the batch.
\<close>

definition processBatch_contacts ::
  "ZohoContact world \<Rightarrow> ZohoContact js_data \<Rightarrow> js_number \<Rightarrow> js_number
     \<Rightarrow> TwentyContact effects \<Rightarrow> TwentyContact effects \<times> (js_error + unit)" where
  "processBatch_contacts w contacts startIndex batchSize st =
     (case js_slice ''contacts'' contacts startIndex (js_add startIndex batchSize) of
        Inl e \<Rightarrow> (st, Inl e)
      | Inr batch \<Rightarrow>
          (let twentyContacts = js_map mapToTwentyContact batch
           in case createTwentyContacts w twentyContacts st of
                (st1, Inl e) \<Rightarrow> (st1, Inl e)
              | (st1, Inr u) \<Rightarrow>
                  (st1\<lparr>log := log st1 @
                         [logger_info
                            [Text ''Processed batch '',
                             Num (Some (js_add (Math_floor (js_div startIndex batchSize)) (Fin 1)))]],
                       delays := delays st1 + 1\<rparr>,
                   Inr ())))"

text \<open>
  The loop of \<open>migrateTasks\<close> and of \<open>migrateContacts\<close>,
  \<open>for (let i = 0; i < records.length; i += config.BATCH_SIZE) await processBatch(...)\<close>,
  from the current \<open>i\<close> on, with \<open>processBatch\<close> as \<open>body\<close>. It stops at the first
  error; it need not stop at all (a batch size of 0 never advances \<open>i\<close>), and then its
  value is \<open>None\<close>.
\<close>

partial_function (option) batch_loop ::
  "(js_number \<Rightarrow> 's \<Rightarrow> 's \<times> (js_error + unit)) \<Rightarrow> 'r js_data \<Rightarrow> js_number
     \<Rightarrow> js_number \<Rightarrow> 's \<Rightarrow> ('s \<times> (js_error + unit)) option" where
  "batch_loop body records batchSize i st =
     (case js_length records of
        Inl e \<Rightarrow> Some (st, Inl e)
      | Inr len \<Rightarrow>
          (if js_less i (ToNumber len)
           then (case body i st of
                   (st1, Inl e) \<Rightarrow> Some (st1, Inl e)
                 | (st1, Inr u) \<Rightarrow> batch_loop body records batchSize (js_add i batchSize) st1)
           else Some (st, Inr ())))"

section \<open>Configuration and the two runs\<close>

record config =
  ZOHO_BASE_URL :: string
  ZOHO_API_KEY :: string
  TWENTY_BASE_URL :: string
  TWENTY_API_KEY :: string
  BATCH_SIZE :: js_number
  RATE_LIMIT_PER_SECOND :: js_number

text \<open>
  \<open>EnvSchema.parse(process.env)\<close>. A variable of the environment is a string when it
  is set. \<open>z.string().url()\<close> and \<open>z.string().min(1)\<close> need the variable set;
  \<open>z.string().transform(Number).default(d)\<close> takes \<open>d\<close> when it is not set and converts
  whatever string it has. The error lists the fields that failed, in the schema's order.
\<close>

definition url_issue :: "js_runtime \<Rightarrow> (string \<Rightarrow> string option) \<Rightarrow> string \<Rightarrow> string list" where
  "url_issue rt env k =
     (case env k of None \<Rightarrow> [k] | Some s \<Rightarrow> if url_valid rt s then [] else [k])"

definition min1_issue :: "(string \<Rightarrow> string option) \<Rightarrow> string \<Rightarrow> string list" where
  "min1_issue env k =
     (case env k of None \<Rightarrow> [k] | Some s \<Rightarrow> if 1 \<le> length s then [] else [k])"

definition with_default :: "(string \<Rightarrow> string option) \<Rightarrow> string \<Rightarrow> string \<Rightarrow> string" where
  "with_default env k d = (case env k of None \<Rightarrow> d | Some s \<Rightarrow> s)"

definition EnvSchema_parse :: "js_runtime \<Rightarrow> (string \<Rightarrow> string option) \<Rightarrow> js_error + config" where
  "EnvSchema_parse rt env =
     (let issues =
            url_issue rt env ''ZOHO_BASE_URL'' @ min1_issue env ''ZOHO_API_KEY'' @
            url_issue rt env ''TWENTY_BASE_URL'' @ min1_issue env ''TWENTY_API_KEY''
      in if issues = []
         then Inr \<lparr> ZOHO_BASE_URL = with_default env ''ZOHO_BASE_URL'' [],
                    ZOHO_API_KEY = with_default env ''ZOHO_API_KEY'' [],
                    TWENTY_BASE_URL = with_default env ''TWENTY_BASE_URL'' [],
                    TWENTY_API_KEY = with_default env ''TWENTY_API_KEY'' [],
                    BATCH_SIZE = Number rt (with_default env ''BATCH_SIZE'' ''50''),
                    RATE_LIMIT_PER_SECOND =
                      Number rt (with_default env ''RATE_LIMIT_PER_SECOND'' ''5'') \<rparr>
         else Inl (ZodError issues))"

text \<open>The \<open>catch\<close> of \<open>migrateTasks\<close> and \<open>migrateContacts\<close>: log and throw again.\<close>

definition migration_failed :: "'d effects \<Rightarrow> js_error \<Rightarrow> 'd effects \<times> (js_error + unit)" where
  "migration_failed st e =
     (st\<lparr>log := log st @ [logger_error ''Migration failed'' (ErrorMeta e)]\<rparr>, Inl e)"

text \<open>\<open>migrateTasks(config)\<close>, started with the effects so far.\<close>

definition migrateTasks ::
  "js_runtime \<Rightarrow> ZohoTask world \<Rightarrow> config \<Rightarrow> TwentyTask effects
     \<Rightarrow> (TwentyTask effects \<times> (js_error + unit)) option" where
  "migrateTasks rt w cfg st =
     (let zohoAxios =
            createAxiosInstance rt (process_env w) (ZOHO_BASE_URL cfg) (ZOHO_API_KEY cfg) True;
          twentyAxios =
            createAxiosInstance rt (process_env w) (TWENTY_BASE_URL cfg) (TWENTY_API_KEY cfg) False;
          st0 = st\<lparr>clients := clients st @ [zohoAxios, twentyAxios],
                    log := log st @ [logger_info [Text ''Starting task migration...'']]\<rparr>
      in case fetchZohoTasks w st0 of
           (st1, Inl e) \<Rightarrow> Some (migration_failed st1 e)
         | (st1, Inr zohoTasks) \<Rightarrow>
             (case js_length zohoTasks of
                Inl e \<Rightarrow> Some (migration_failed st1 e)
              | Inr len \<Rightarrow>
                  (case batch_loop (\<lambda>i. processBatch rt w zohoTasks i (BATCH_SIZE cfg))
                          zohoTasks (BATCH_SIZE cfg) (Fin 0)
                          (st1\<lparr>log := log st1 @
                             [logger_info
                                [Text ''Fetched '', Num len, Text '' tasks from Zoho CRM'']]\<rparr>)
                   of
                     None \<Rightarrow> None
                   | Some (st2, Inl e) \<Rightarrow> Some (migration_failed st2 e)
                   | Some (st2, Inr u) \<Rightarrow>
                       Some (st2\<lparr>log := log st2 @
                               [logger_info [Text ''Migration completed successfully'']]\<rparr>,
                             Inr ()))))"

text \<open>\<open>migrateContacts(config)\<close>.\<close>

definition migrateContacts ::
  "js_runtime \<Rightarrow> ZohoContact world \<Rightarrow> config \<Rightarrow> TwentyContact effects
     \<Rightarrow> (TwentyContact effects \<times> (js_error + unit)) option" where
  "migrateContacts rt w cfg st =
     (let zohoAxios =
            createAxiosInstance rt (process_env w) (ZOHO_BASE_URL cfg) (ZOHO_API_KEY cfg) True;
          twentyAxios =
            createAxiosInstance rt (process_env w) (TWENTY_BASE_URL cfg) (TWENTY_API_KEY cfg) False;
          st0 = st\<lparr>clients := clients st @ [zohoAxios, twentyAxios],
                    log := log st @ [logger_info [Text ''Starting contact migration...'']]\<rparr>
      in case fetchZohoContacts w st0 of
           (st1, Inl e) \<Rightarrow> Some (migration_failed st1 e)
         | (st1, Inr zohoContacts) \<Rightarrow>
             (case js_length zohoContacts of
                Inl e \<Rightarrow> Some (migration_failed st1 e)
              | Inr len \<Rightarrow>
                  (case batch_loop (\<lambda>i. processBatch_contacts w zohoContacts i (BATCH_SIZE cfg))
                          zohoContacts (BATCH_SIZE cfg) (Fin 0)
                          (st1\<lparr>log := log st1 @
                             [logger_info
                                [Text ''Fetched '', Num len, Text '' contacts from Zoho CRM'']]\<rparr>)
                   of
                     None \<Rightarrow> None
                   | Some (st2, Inl e) \<Rightarrow> Some (migration_failed st2 e)
                   | Some (st2, Inr u) \<Rightarrow>
                       Some (st2\<lparr>log := log st2 @
                               [logger_info [Text ''Migration completed successfully'']]\<rparr>,
                             Inr ()))))"

text \<open>
  \<open>main()\<close> of either script, with its \<open>migrate\<close> function as argument: the effects of
  the process and its exit code (\<open>process.exit(1)\<close> after any error, 0 otherwise), or
  \<open>None\<close> when the run never ends.
\<close>

definition main_with ::
  "(js_runtime \<Rightarrow> 'r world \<Rightarrow> config \<Rightarrow> 'd effects \<Rightarrow> ('d effects \<times> (js_error + unit)) option)
     \<Rightarrow> js_runtime \<Rightarrow> 'r world \<Rightarrow> ('d effects \<times> nat) option" where
  "main_with migrate rt w =
     (case EnvSchema_parse rt (process_env w) of
        Inl (ZodError issues) \<Rightarrow>
          Some (no_effects\<lparr>log :=
                  [logger_error ''Environment validation failed'' (ZodMeta issues)]\<rparr>, 1)
      | Inl e \<Rightarrow>
          Some (no_effects\<lparr>log := [logger_error ''Unexpected error'' (ErrorMeta e)]\<rparr>, 1)
      | Inr cfg \<Rightarrow>
          (case migrate rt w cfg no_effects of
             None \<Rightarrow> None
           | Some (st, Inl (ZodError issues)) \<Rightarrow>
               Some (st\<lparr>log := log st @
                       [logger_error ''Environment validation failed'' (ZodMeta issues)]\<rparr>, 1)
           | Some (st, Inl e) \<Rightarrow>
               Some (st\<lparr>log := log st @ [logger_error ''Unexpected error'' (ErrorMeta e)]\<rparr>, 1)
           | Some (st, Inr u) \<Rightarrow> Some (st, 0)))"

definition main :: "js_runtime \<Rightarrow> ZohoTask world \<Rightarrow> (TwentyTask effects \<times> nat) option" where
  "main = main_with migrateTasks"

definition main_contacts ::
  "js_runtime \<Rightarrow> ZohoContact world \<Rightarrow> (TwentyContact effects \<times> nat) option" where
  "main_contacts = main_with migrateContacts"

section \<open>Dates of the runtime\<close>

text \<open>
  \<open>validateDate\<close> rests on two built-ins, \<open>Date.parse\<close> (inside \<open>new Date(date)\<close>) and
  \<open>Date.prototype.toISOString\<close>. ECMAScript fixes the second completely and the first on
  the strings of its Date Time String Format. This section writes both down, over time
  values in milliseconds since 1970-01-01T00:00:00Z, in UTC.
\<close>

subsection \<open>Days, years and months\<close>

text \<open>\<open>DayFromYear(y)\<close>, the day number of the first day of year \<open>y\<close>, and the leap years.\<close>

definition day_from_year :: "int \<Rightarrow> int" where
  "day_from_year y =
     365 * (y - 1970) + (y - 1969) div 4 - (y - 1901) div 100 + (y - 1601) div 400"

definition leap_year :: "int \<Rightarrow> bool" where
  "leap_year y \<longleftrightarrow> y mod 4 = 0 \<and> (y mod 100 \<noteq> 0 \<or> y mod 400 = 0)"

text \<open>
  \<open>YearFromTime\<close>: the year that holds a day number, which is the largest \<open>y\<close> with
  \<open>DayFromYear(y) \<le> day\<close>. It is computed from an estimate that is off by one year at
  most.
\<close>

definition year_near :: "int \<Rightarrow> int \<Rightarrow> int" where
  "year_near day y0 =
     (if day < day_from_year y0 then y0 - 1
      else if day_from_year (y0 + 1) \<le> day then y0 + 1 else y0)"

definition year_from_day :: "int \<Rightarrow> int" where
  "year_from_day day = year_near day (1970 + (400 * day) div 146097)"

text \<open>
  The day of the year (from 0) on which month \<open>m\<close> (from 1) starts, \<open>MonthFromTime\<close> of a
  day of the year, and the length of a month.
\<close>

definition month_start :: "bool \<Rightarrow> int \<Rightarrow> int" where
  "month_start leap m =
     [0, 31, 59, 90, 120, 151, 181, 212, 243, 273, 304, 334] ! nat (m - 1)
       + (if leap \<and> 2 < m then 1 else 0)"

definition month_from_day :: "bool \<Rightarrow> int \<Rightarrow> int" where
  "month_from_day leap dwy =
     (if dwy < month_start leap 2 then 1 else if dwy < month_start leap 3 then 2
      else if dwy < month_start leap 4 then 3 else if dwy < month_start leap 5 then 4
      else if dwy < month_start leap 6 then 5 else if dwy < month_start leap 7 then 6
      else if dwy < month_start leap 8 then 7 else if dwy < month_start leap 9 then 8
      else if dwy < month_start leap 10 then 9 else if dwy < month_start leap 11 then 10
      else if dwy < month_start leap 12 then 11 else 12)"

definition days_in_month :: "bool \<Rightarrow> int \<Rightarrow> int" where
  "days_in_month leap m =
     (if m = 2 then (if leap then 29 else 28)
      else if m = 4 \<or> m = 6 \<or> m = 9 \<or> m = 11 then 30 else 31)"

text \<open>Year, month and day of the month of a day number, in stages, and \<open>MakeDay\<close>.\<close>

definition civil_in_year :: "int \<Rightarrow> int \<Rightarrow> int \<times> int \<times> int" where
  "civil_in_year y dwy =
     (y, month_from_day (leap_year y) dwy,
      dwy - month_start (leap_year y) (month_from_day (leap_year y) dwy) + 1)"

definition civil_from_year :: "int \<Rightarrow> int \<Rightarrow> int \<times> int \<times> int" where
  "civil_from_year day y = civil_in_year y (day - day_from_year y)"

definition civil_from_days :: "int \<Rightarrow> int \<times> int \<times> int" where
  "civil_from_days day = civil_from_year day (year_from_day day)"

definition days_from_civil :: "int \<Rightarrow> int \<Rightarrow> int \<Rightarrow> int" where
  "days_from_civil y m d = day_from_year y + month_start (leap_year y) m + d - 1"

text \<open>
  A time value is an integer of at most 8.64e15 in absolute value (100 000 000 days on
  either side of the epoch); \<open>TimeClip\<close> turns every other number into NaN, an invalid
  date.
\<close>

definition valid_time :: "int \<Rightarrow> bool" where
  "valid_time t \<longleftrightarrow> - 8640000000000000 \<le> t \<and> t \<le> 8640000000000000"

definition TimeClip :: "int \<Rightarrow> int option" where
  "TimeClip t = (if valid_time t then Some t else None)"

subsection \<open>Decimal digits\<close>

definition digit_char :: "nat \<Rightarrow> char" where
  "digit_char d = ''0123456789'' ! d"

definition digit_of :: "char \<Rightarrow> nat option" where
  "digit_of c =
     (let n = (of_char c :: nat) in if 48 \<le> n \<and> n \<le> 57 then Some (n - 48) else None)"

text \<open>The last \<open>width\<close> decimal digits of \<open>n\<close>, with leading zeros.\<close>

fun pad :: "nat \<Rightarrow> nat \<Rightarrow> string" where
  "pad 0 n = []"
| "pad (Suc width) n = pad width (n div 10) @ [digit_char (n mod 10)]"

text \<open>The number written by a string of decimal digits that is not empty.\<close>

fun decimal_from :: "nat \<Rightarrow> string \<Rightarrow> nat option" where
  "decimal_from n [] = Some n"
| "decimal_from n (c # cs) =
     (case digit_of c of None \<Rightarrow> None | Some d \<Rightarrow> decimal_from (10 * n + d) cs)"

definition decimal_value :: "string \<Rightarrow> nat option" where
  "decimal_value s = (if s = [] then None else decimal_from 0 s)"

subsection \<open>\<open>toISOString\<close>\<close>

text \<open>
  \<open>YYYY-MM-DDTHH:mm:ss.sssZ\<close>, and for a year outside 0 to 9999 the expanded year, a
  sign and six digits.
\<close>

definition year_string :: "int \<Rightarrow> string" where
  "year_string y =
     (if 0 \<le> y \<and> y \<le> 9999 then pad 4 (nat y)
      else (if y < 0 then CHR ''-'' else CHR ''+'') # pad 6 (nat \<bar>y\<bar>))"

definition time_string :: "nat \<Rightarrow> string" where
  "time_string ms =
     pad 2 (ms div 3600000) @ '':'' @ pad 2 (ms div 60000 mod 60) @ '':'' @
     pad 2 (ms div 1000 mod 60) @ ''.'' @ pad 3 (ms mod 1000)"

fun date_string :: "int \<times> int \<times> int \<Rightarrow> string" where
  "date_string (y, m, d) = year_string y @ ''-'' @ pad 2 (nat m) @ ''-'' @ pad 2 (nat d)"

definition iso_toISOString :: "int \<Rightarrow> string" where
  "iso_toISOString t =
     date_string (civil_from_days (t div 86400000)) @ ''T'' @
     time_string (nat (t mod 86400000)) @ ''Z''"

subsection \<open>\<open>Date.parse\<close> on the Date Time String Format\<close>

text \<open>
  Two layouts of the format are read, the date \<open>YYYY-MM-DD\<close> and the date with the time
  \<open>THH:mm:ss.sssZ\<close>, both in UTC and both with a year of four digits or an expanded year
  (\<open>-000000\<close> is not a year). The day must exist in its month, the time of day is at most
  \<open>24:00:00.000\<close>, and the result goes through \<open>TimeClip\<close>. \<open>None\<close> is the invalid date.
\<close>

definition year_of :: "string \<Rightarrow> (int \<times> string) option" where
  "year_of s =
     (if take 1 s = ''+'' then
        (case decimal_value (take 6 (drop 1 s)) of
           None \<Rightarrow> None
         | Some y \<Rightarrow> if 7 \<le> length s then Some (int y, drop 7 s) else None)
      else if take 1 s = ''-'' then
        (case decimal_value (take 6 (drop 1 s)) of
           None \<Rightarrow> None
         | Some y \<Rightarrow> if 7 \<le> length s \<and> 0 < y then Some (- int y, drop 7 s) else None)
      else
        (case decimal_value (take 4 s) of
           None \<Rightarrow> None
         | Some y \<Rightarrow> if 4 \<le> length s then Some (int y, drop 4 s) else None))"

definition month_day_of :: "int \<Rightarrow> string \<Rightarrow> int option" where
  "month_day_of y r =
     (if length r = 6 \<and> take 1 r = ''-'' \<and> take 1 (drop 3 r) = ''-''
      then (case (decimal_value (take 2 (drop 1 r)), decimal_value (drop 4 r)) of
              (Some m, Some d) \<Rightarrow>
                (if 1 \<le> m \<and> m \<le> 12 \<and> 1 \<le> d \<and> int d \<le> days_in_month (leap_year y) (int m)
                 then Some (days_from_civil y (int m) (int d)) else None)
            | _ \<Rightarrow> None)
      else None)"

definition time_of :: "string \<Rightarrow> int option" where
  "time_of r =
     (if length r = 14 \<and> take 1 r = ''T'' \<and> take 1 (drop 3 r) = '':'' \<and>
         take 1 (drop 6 r) = '':'' \<and> take 1 (drop 9 r) = ''.'' \<and> drop 13 r = ''Z''
      then (case (decimal_value (take 2 (drop 1 r)), decimal_value (take 2 (drop 4 r)),
                  decimal_value (take 2 (drop 7 r)), decimal_value (take 3 (drop 10 r))) of
              (Some h, Some mi, Some sec, Some ms) \<Rightarrow>
                (if (h \<le> 23 \<and> mi \<le> 59 \<and> sec \<le> 59) \<or> (h = 24 \<and> mi = 0 \<and> sec = 0 \<and> ms = 0)
                 then Some (int (h * 3600000 + mi * 60000 + sec * 1000 + ms)) else None)
            | _ \<Rightarrow> None)
      else None)"

definition date_time_of :: "int \<Rightarrow> string \<Rightarrow> int option" where
  "date_time_of y rest =
     (if length rest = 6
      then (case month_day_of y rest of None \<Rightarrow> None | Some days \<Rightarrow> TimeClip (days * 86400000))
      else (case (month_day_of y (take 6 rest), time_of (drop 6 rest)) of
              (Some days, Some ms) \<Rightarrow> TimeClip (days * 86400000 + ms)
            | _ \<Rightarrow> None))"

definition iso_Date_parse :: "string \<Rightarrow> int option" where
  "iso_Date_parse s =
     (case year_of s of None \<Rightarrow> None | Some (y, rest) \<Rightarrow> date_time_of y rest)"

subsection \<open>Runtimes that follow the standard\<close>

text \<open>
  A runtime has the dates of ECMAScript when
  \<^item> its \<open>toISOString\<close> writes every time value as above,
  \<^item> its \<open>Date.parse\<close> gives every string that is read above the time value found above,
  \<^item> and a date it takes as valid has a time value.

  What \<open>Date.parse\<close> makes of any other string is left open, as the standard leaves it to
  the implementation.
\<close>

definition ecmascript_dates :: "js_runtime \<Rightarrow> bool" where
  "ecmascript_dates rt \<longleftrightarrow>
     (\<forall>t. valid_time t \<longrightarrow> toISOString rt t = iso_toISOString t)
     \<and> (\<forall>s t. iso_Date_parse s = Some t \<longrightarrow> Date_parse rt s = Some t)
     \<and> (\<forall>s t. Date_parse rt s = Some t \<longrightarrow> valid_time t)"

section \<open>A reference runtime\<close>

text \<open>
  The theorems hold for every runtime, or for every runtime with the dates of
  ECMAScript. To run the model on concrete inputs, one runtime is fixed here:
  \<^item> \<open>Date.parse\<close> reads the two layouts above and takes every other string as an
    invalid date;
  \<^item> \<open>toISOString\<close> is the format above;
  \<^item> \<open>Number\<close> reads the empty string and decimal integers with an optional sign, and
    takes every other string as NaN;
  \<^item> a URL is valid when it is \<open>http://\<close> or \<open>https://\<close> followed by a host of
    letters, digits, dots and hyphens and an optional path of such characters and
    slashes.
\<close>

definition decimal_Number :: "string \<Rightarrow> js_number" where
  "decimal_Number s =
     (if s = [] then Fin 0
      else if hd s = CHR ''-'' then
        (case decimal_value (tl s) of None \<Rightarrow> NaN | Some n \<Rightarrow> Fin (- of_nat n))
      else if hd s = CHR ''+'' then
        (case decimal_value (tl s) of None \<Rightarrow> NaN | Some n \<Rightarrow> Fin (of_nat n))
      else (case decimal_value s of None \<Rightarrow> NaN | Some n \<Rightarrow> Fin (of_nat n)))"

definition host_char :: "char \<Rightarrow> bool" where
  "host_char c =
     (let n = (of_char c :: nat)
      in (48 \<le> n \<and> n \<le> 57) \<or> (65 \<le> n \<and> n \<le> 90) \<or> (97 \<le> n \<and> n \<le> 122) \<or>
         c = CHR ''.'' \<or> c = CHR ''-'')"

definition http_url :: "string \<Rightarrow> bool" where
  "http_url s =
     (let rest = (if take 7 s = ''http://'' then drop 7 s
                  else if take 8 s = ''https://'' then drop 8 s else [])
      in rest \<noteq> [] \<and> host_char (hd rest) \<and>
         list_all (\<lambda>c. host_char c \<or> c = CHR ''/'') rest)"

definition reference_runtime :: js_runtime where
  "reference_runtime =
     \<lparr> Date_parse = iso_Date_parse, toISOString = iso_toISOString,
       Number = decimal_Number, url_valid = http_url \<rparr>"

section \<open>Example inputs\<close>

text \<open>Concrete records, environments and worlds on which the theorems are instantiated.\<close>

definition example_tasks :: "ZohoTask list" where
  "example_tasks =
     [\<lparr> task_id = ''4150868000000624001'', Subject = ''Call the supplier'', Status = ''Open'',
        Due_Date = ''2024-03-15'', task_Owner = None, Modified_Time = None,
        Created_Time = None \<rparr>,
      \<lparr> task_id = ''4150868000000624002'', Subject = ''Send the quote'',
        Status = ''In Progress'', Due_Date = ''2024-03-16T10:30:00.000Z'',
        task_Owner = Some (''4150868000000225013'', ''Patricia Boyle''),
        Modified_Time = None, Created_Time = None \<rparr>,
      \<lparr> task_id = ''4150868000000624003'', Subject = ''Archive the contract'',
        Status = ''Completed'', Due_Date = ''not a date'', task_Owner = None,
        Modified_Time = None, Created_Time = None \<rparr>]"

definition example_contact :: "string \<Rightarrow> string \<Rightarrow> ZohoContact" where
  "example_contact first country =
     \<lparr> contact_id = ''4150868000000300001'', First_Name = first, Last_Name = ''Boyle'',
       Email = ''boyle@example.com'', Phone = ''555-0100'', Mobile = [],
       contact_Owner = None,
       Created_By = (''Patricia Boyle'', ''4150868000000225013'', ''p.boyle@example.com''),
       Mailing_City = ''Dublin'', Title = ''Buyer'', Record_Image = [],
       Mailing_Country = country \<rparr>"

definition example_contacts :: "ZohoContact list" where
  "example_contacts =
     [example_contact ''Ann'' ''Ireland'', example_contact ''Ben'' ''IE'',
      example_contact ''Cat'' ''+353'']"

definition example_env :: "string \<Rightarrow> string option" where
  "example_env =
     map_of
       [(''ZOHO_BASE_URL'', ''https://www.zohoapis.com''),
        (''ZOHO_API_KEY'', ''zoho-key''),
        (''TWENTY_BASE_URL'', ''https://api.twenty.com/rest''),
        (''TWENTY_API_KEY'', ''twenty-key''),
        (''BATCH_SIZE'', ''2'')]"

definition example_config :: config where
  "example_config =
     \<lparr> ZOHO_BASE_URL = ''https://www.zohoapis.com'', ZOHO_API_KEY = ''zoho-key'',
       TWENTY_BASE_URL = ''https://api.twenty.com/rest'', TWENTY_API_KEY = ''twenty-key'',
       BATCH_SIZE = Fin 2, RATE_LIMIT_PER_SECOND = Fin 5 \<rparr>"

text \<open>Every POST succeeds; the clock stands at 2024-03-15T10:30:00.123Z.\<close>

definition example_world :: "ZohoTask world" where
  "example_world =
     \<lparr> process_env = example_env,
       zoho_get = GetResolves (JArray example_tasks),
       twenty_post = (\<lambda>k. None),
       clock = (\<lambda>p. 1710498600123) \<rparr>"

text \<open>Batches of one record; the second POST is answered with status 500.\<close>

definition failing_world :: "ZohoTask world" where
  "failing_world =
     example_world\<lparr>
       process_env := example_env(''BATCH_SIZE'' \<mapsto> ''1''),
       twenty_post :=
         (\<lambda>k. if k = 1
              then Some (''Request failed with status code 500'',
                         Some (500, Some ''Internal server error''))
              else None)\<rparr>"

definition contact_world :: "ZohoContact world" where
  "contact_world =
     \<lparr> process_env = example_env,
       zoho_get = GetResolves (JArray example_contacts),
       twenty_post = (\<lambda>k. None),
       clock = (\<lambda>p. 1710498600123) \<rparr>"




text \<open>The body of the source's answer holds an object, or nothing, under \<open>data\<close>.\<close>

definition shapeless_world :: "ZohoTask world" where
  "shapeless_world = example_world\<lparr>zoho_get := GetResolves JPlainObject\<rparr>"

definition absent_world :: "ZohoTask world" where
  "absent_world = example_world\<lparr>zoho_get := GetResolves JUndefined\<rparr>"

section \<open>Verified properties\<close>

subsection \<open>Supporting lemmas\<close>

lemma js_add_nat: "js_add (Fin (of_nat i)) (Fin (of_nat b)) = Fin (of_nat (i + b))"
  by simp

lemma js_less_nat: "js_less (Fin (of_nat i)) (Fin (of_nat n)) = (i < n)"
  by simp

lemma relative_index_nat: "relative_index (Fin (of_nat i)) len = min i len"
  by (simp add: Let_def)

lemma slice_nat:
  "slice xs (Fin (of_nat i)) (Fin (of_nat (i + b))) = take b (drop i xs)"
proof -
  have "take (min (i + b) (length xs) - min i (length xs)) (drop (min i (length xs)) xs)
          = take b (drop i xs)"
  proof (cases "i \<le> length xs")
    case True
    then have "min (i + b) (length xs) - i = min b (length xs - i)" by auto
    moreover have "take (min b (length (drop i xs))) (drop i xs) = take b (drop i xs)"
      by (simp add: min_def)
    ultimately show ?thesis using True by (simp add: min_absorb1)
  next
    case False
    then show ?thesis by simp
  qed
  then show ?thesis
    unfolding slice_def relative_index_nat Let_def .
qed


lemma createTwentyTasks_ok:
  "twenty_post w (length (twenty_requests st)) = None \<Longrightarrow>
   createTwentyTasks w body st =
     (st\<lparr>log := log st @ [console_log ''tasks''],
         twenty_requests := twenty_requests st @ [(''/batch/tasks'', body)]\<rparr>, Inr ())"
  by (simp add: createTwentyTasks_def)

lemma createTwentyTasks_fail:
  "twenty_post w (length (twenty_requests st)) = Some (m, r) \<Longrightarrow>
   createTwentyTasks w body st =
     (case handleApiError (AxiosError m r)
             (st\<lparr>log := log st @ [console_log ''tasks''],
                 twenty_requests := twenty_requests st @ [(''/batch/tasks'', body)]\<rparr>)
      of (st2, e) \<Rightarrow> (st2, Inl e))"
  by (simp add: createTwentyTasks_def)

lemma processBatch_ok:
  assumes "twenty_post w (length (twenty_requests st)) = None"
  shows "\<exists>st'. processBatch rt w (JArray tasks) (Fin (of_nat i)) (Fin (of_nat B)) st = (st', Inr ())
     \<and> twenty_requests st' = twenty_requests st @
          [(''/batch/tasks'', map_batch rt w (Fin (of_nat i)) (take B (drop i tasks)))]
     \<and> zoho_requests st' = zoho_requests st \<and> clients st' = clients st
     \<and> delays st' = Suc (delays st)"
  unfolding processBatch_def js_slice.simps js_add_nat slice_nat
  by (simp add: createTwentyTasks_ok [OF assms])

lemma processBatch_fail:
  assumes "twenty_post w (length (twenty_requests st)) = Some (m, r)"
  shows "\<exists>st'. processBatch rt w (JArray tasks) (Fin (of_nat i)) (Fin (of_nat B)) st
        = (st', Inl (Error (''API Error: '' @
              (case response_data_message (AxiosError m r) of
                 None \<Rightarrow> m
               | Some dm \<Rightarrow> if dm = [] then m else dm))))
     \<and> twenty_requests st' = twenty_requests st @
          [(''/batch/tasks'', map_batch rt w (Fin (of_nat i)) (take B (drop i tasks)))]
     \<and> zoho_requests st' = zoho_requests st \<and> clients st' = clients st
     \<and> delays st' = delays st"
  unfolding processBatch_def js_slice.simps js_add_nat slice_nat
  by (simp add: createTwentyTasks_fail [OF assms] handleApiError_def Let_def split: option.split)

lemma batch_loop_step:
  assumes "i < length xs" and "body (Fin (of_nat i)) st = (st1, Inr u)"
  shows "batch_loop body (JArray xs) (Fin (of_nat B)) (Fin (of_nat i)) st
       = batch_loop body (JArray xs) (Fin (of_nat B)) (Fin (of_nat (i + B))) st1"
  using assms by (subst batch_loop.simps) simp

lemma batch_loop_fail:
  assumes "i < length xs" and "body (Fin (of_nat i)) st = (st1, Inl e)"
  shows "batch_loop body (JArray xs) batchSize (Fin (of_nat i)) st = Some (st1, Inl e)"
  using assms by (subst batch_loop.simps) simp

lemma batch_loop_stop:
  assumes "length xs \<le> i"
  shows "batch_loop body (JArray xs) batchSize (Fin (of_nat i)) st = Some (st, Inr ())"
  using assms by (subst batch_loop.simps) simp

lemma batch_loop_prefix:
  assumes inv0: "P 0 st"
    and step: "\<And>j s. j < k \<Longrightarrow> P j s \<Longrightarrow>
                 \<exists>s'. body (Fin (of_nat (j * B))) s = (s', Inr ()) \<and> P (Suc j) s'"
    and inside: "\<And>j. j < k \<Longrightarrow> j * B < length xs"
  shows "\<exists>st'. batch_loop body (JArray xs) (Fin (of_nat B)) (Fin 0) st
                 = batch_loop body (JArray xs) (Fin (of_nat B)) (Fin (of_nat (k * B))) st'
               \<and> P k st'"
  using step inside
proof (induction k)
  case 0
  from inv0 show ?case by (intro exI [of _ st]) simp
next
  case (Suc k)
  from Suc.IH Suc.prems obtain sk where
    eq: "batch_loop body (JArray xs) (Fin (of_nat B)) (Fin 0) st
          = batch_loop body (JArray xs) (Fin (of_nat B)) (Fin (of_nat (k * B))) sk"
    and inv: "P k sk"
    by (metis less_Suc_eq)
  from Suc.prems(1) [of k sk] inv obtain s' where
    run: "body (Fin (of_nat (k * B))) sk = (s', Inr ())" and inv': "P (Suc k) s'"
    by auto
  from Suc.prems(2) [of k] have lt: "k * B < length xs" by simp
  have "batch_loop body (JArray xs) (Fin (of_nat B)) (Fin (of_nat (k * B))) sk
      = batch_loop body (JArray xs) (Fin (of_nat B)) (Fin (of_nat (k * B + B))) s'"
    using lt run by (rule batch_loop_step)
  with eq have "batch_loop body (JArray xs) (Fin (of_nat B)) (Fin 0) st
      = batch_loop body (JArray xs) (Fin (of_nat B)) (Fin (of_nat (Suc k * B))) s'"
    by (simp add: add.commute)
  with inv' show ?case by blast
qed

text \<open>The number of batches, and the arithmetic of the last one.\<close>

lemma batch_inside:
  assumes "j < (n + B - 1) div B" and "1 \<le> B"
  shows "j * B < (n::nat)"
proof -
  from assms(1) have "Suc j \<le> (n + B - 1) div B" by simp
  then have "Suc j * B \<le> (n + B - 1) div B * B" by (rule mult_le_mono1)
  also have "\<dots> \<le> n + B - 1" by (rule div_times_less_eq_dividend)
  finally show ?thesis using assms(2) by simp
qed

lemma batches_cover:
  assumes "1 \<le> B"
  shows "(n::nat) \<le> ((n + B - 1) div B) * B"
proof -
  have "n + B - 1 = (n + B - 1) div B * B + (n + B - 1) mod B" by simp
  moreover from assms have "(n + B - 1) mod B < B" by simp
  ultimately have "n + B - 1 < (n + B - 1) div B * B + B" by linarith
  with assms show ?thesis by simp
qed

lemma concat_batches:
  "concat (map (\<lambda>k. take B (drop (k * B) xs)) [0..<n]) = take (n * B) xs"
proof (induction n)
  case 0
  show ?case by simp
next
  case (Suc n)
  have "take (Suc n * B) xs = take (n * B + B) xs" by (simp add: add.commute)
  also have "\<dots> = take (n * B) xs @ take B (drop (n * B) xs)" by (rule take_add)
  finally show ?case using Suc by simp
qed


lemma fetchZohoTasks_resolves:
  "zoho_get w = GetResolves d \<Longrightarrow>
   fetchZohoTasks w st = (st\<lparr>zoho_requests := zoho_requests st @ [''/crm/v2/Tasks'']\<rparr>, Inr d)"
  by (simp add: fetchZohoTasks_def)

lemma migrateTasks_array:
  assumes "zoho_get w = GetResolves (JArray tasks)"
  shows "\<exists>s0. twenty_requests s0 = twenty_requests st
     \<and> zoho_requests s0 = zoho_requests st @ [''/crm/v2/Tasks''] \<and> delays s0 = delays st
     \<and> log s0 = log st @ [logger_info [Text ''Starting task migration...''],
           logger_info [Text ''Fetched '', Num (Some (Fin (of_nat (length tasks)))),
                        Text '' tasks from Zoho CRM'']]
     \<and> migrateTasks rt w cfg st =
         (case batch_loop (\<lambda>i. processBatch rt w (JArray tasks) i (BATCH_SIZE cfg))
                 (JArray tasks) (BATCH_SIZE cfg) (Fin 0) s0 of
            None \<Rightarrow> None
          | Some (st2, Inl e) \<Rightarrow> Some (migration_failed st2 e)
          | Some (st2, Inr u) \<Rightarrow>
              Some (st2\<lparr>log := log st2 @
                      [logger_info [Text ''Migration completed successfully'']]\<rparr>, Inr ()))"
  unfolding migrateTasks_def Let_def fetchZohoTasks_resolves [OF assms]
  by (intro exI conjI; simp)


lemma main_valid_config:
  assumes "EnvSchema_parse rt (process_env w) = Inr cfg"
  shows "main rt w =
     (case migrateTasks rt w cfg no_effects of
        None \<Rightarrow> None
      | Some (st, Inl (ZodError issues)) \<Rightarrow>
          Some (st\<lparr>log := log st @
                  [logger_error ''Environment validation failed'' (ZodMeta issues)]\<rparr>, 1)
      | Some (st, Inl e) \<Rightarrow>
          Some (st\<lparr>log := log st @ [logger_error ''Unexpected error'' (ErrorMeta e)]\<rparr>, 1)
      | Some (st, Inr u) \<Rightarrow> Some (st, 0))"
  by (simp add: main_def main_with_def assms)

lemma length_js_map: "length (js_map f xs) = length xs"
  by (simp add: js_map_def)

lemma nth_js_map: "j < length xs \<Longrightarrow> js_map f xs ! j = f (xs ! j) j"
  by (simp add: js_map_def nth_enumerate_eq)

lemma position_nat:
  "js_add (js_add (Fin (of_nat i)) (Fin (of_nat j))) (Fin 1) = Fin (of_nat (i + j + 1))"
  by simp

lemma map_batch_positions:
  "map position (map_batch rt w (Fin (of_nat i)) batch)
     = map (\<lambda>j. Fin (of_nat (i + j + 1))) [0..<length batch]"
  unfolding map_batch_def position_nat
  by (rule nth_equalityI) (simp_all add: length_js_map nth_js_map mapToTwentyTask_def)


lemma enumerate_take_drop:
  "enumerate i (take b (drop i xs)) = take b (drop i (enumerate 0 xs))"
proof (rule nth_equalityI)
  show "length (enumerate i (take b (drop i xs))) = length (take b (drop i (enumerate 0 xs)))"
    by simp
next
  fix m
  assume "m < length (enumerate i (take b (drop i xs)))"
  then have "m < b" and "i + m < length xs" by auto
  then show "enumerate i (take b (drop i xs)) ! m = take b (drop i (enumerate 0 xs)) ! m"
    by (simp add: nth_enumerate_eq)
qed

lemma map_batch_enumerate:
  "map_batch rt w (Fin (of_nat i)) batch
     = map (\<lambda>(p, task). mapToTwentyTask rt (clock w (Fin (of_nat (p + 1)))) task
                          (Fin (of_nat (p + 1))))
         (enumerate i batch)"
  unfolding map_batch_def position_nat
  by (rule nth_equalityI) (simp_all add: length_js_map nth_js_map nth_enumerate_eq)

lemma concat_map_batch:
  assumes "length xs \<le> n * B"
  shows "concat (map (\<lambda>j. map_batch rt w (Fin (of_nat (j * B))) (take B (drop (j * B) xs)))
                  [0..<n])
       = js_map (\<lambda>task i. mapToTwentyTask rt (clock w (Fin (of_nat (i + 1)))) task
                            (Fin (of_nat (i + 1)))) xs"
proof -
  let ?g = "\<lambda>(p, task). mapToTwentyTask rt (clock w (Fin (of_nat (p + 1)))) task
                          (Fin (of_nat (p + 1)))"
  have "concat (map (\<lambda>j. map_batch rt w (Fin (of_nat (j * B))) (take B (drop (j * B) xs)))
                  [0..<n])
      = concat (map (map ?g) (map (\<lambda>j. take B (drop (j * B) (enumerate 0 xs))) [0..<n]))"
    by (simp only: map_batch_enumerate enumerate_take_drop map_map comp_def)
  also have "\<dots> = map ?g (concat (map (\<lambda>j. take B (drop (j * B) (enumerate 0 xs))) [0..<n]))"
    by (simp only: map_concat)
  also have "\<dots> = map ?g (enumerate 0 xs)"
    using assms by (simp add: concat_batches)
  also have "\<dots> = js_map (\<lambda>task i. mapToTwentyTask rt (clock w (Fin (of_nat (i + 1)))) task
                            (Fin (of_nat (i + 1)))) xs"
    by (simp add: js_map_def)
  finally show ?thesis .
qed

lemma processBatch_contacts_ok:
  assumes "twenty_post w (length (twenty_requests st)) = None"
  shows "\<exists>st'. processBatch_contacts w (JArray contacts) (Fin (of_nat i)) (Fin (of_nat B)) st
        = (st', Inr ())
     \<and> twenty_requests st' = twenty_requests st @
          [(''/batch/people'', js_map mapToTwentyContact (take B (drop i contacts)))]
     \<and> zoho_requests st' = zoho_requests st \<and> clients st' = clients st
     \<and> delays st' = Suc (delays st)"
  unfolding processBatch_contacts_def js_slice.simps js_add_nat slice_nat
  using assms by (simp add: createTwentyContacts_def)

lemma migrateContacts_array:
  assumes "zoho_get w = GetResolves (JArray contacts)"
  shows "\<exists>s0. twenty_requests s0 = twenty_requests st
     \<and> zoho_requests s0 = zoho_requests st @ [''/crm/v2/Contacts''] \<and> delays s0 = delays st
     \<and> migrateContacts rt w cfg st =
         (case batch_loop (\<lambda>i. processBatch_contacts w (JArray contacts) i (BATCH_SIZE cfg))
                 (JArray contacts) (BATCH_SIZE cfg) (Fin 0) s0 of
            None \<Rightarrow> None
          | Some (st2, Inl e) \<Rightarrow> Some (migration_failed st2 e)
          | Some (st2, Inr u) \<Rightarrow>
              Some (st2\<lparr>log := log st2 @
                      [logger_info [Text ''Migration completed successfully'']]\<rparr>, Inr ()))"
  unfolding migrateContacts_def Let_def
  by (intro exI conjI; simp add: fetchZohoContacts_def assms)

lemma migrateContacts_batches:
  assumes "1 \<le> B" and "BATCH_SIZE cfg = Fin (of_nat B)"
    and "zoho_get w = GetResolves (JArray contacts)"
    and "\<forall>k. twenty_post w k = None"
  shows "\<exists>st'. migrateContacts rt w cfg st = Some (st', Inr ())
    \<and> twenty_requests st' = twenty_requests st @
         map (\<lambda>k. (''/batch/people'',
                 js_map mapToTwentyContact (take B (drop (k * B) contacts))))
           [0..<(length contacts + B - 1) div B]"
proof -
  let ?n = "(length contacts + B - 1) div B"
  let ?body = "\<lambda>i. processBatch_contacts w (JArray contacts) i (Fin (of_nat B))"
  let ?P = "\<lambda>(s0::TwentyContact effects) k (s::TwentyContact effects).
       twenty_requests s = twenty_requests s0 @
         map (\<lambda>j. (''/batch/people'',
                 js_map mapToTwentyContact (take B (drop (j * B) contacts)))) [0..<k]"
  from migrateContacts_array [OF assms(3), of st rt cfg] obtain s0 where
    s0: "twenty_requests s0 = twenty_requests st"
    and run: "migrateContacts rt w cfg st =
         (case batch_loop ?body (JArray contacts) (Fin (of_nat B)) (Fin 0) s0 of
            None \<Rightarrow> None
          | Some (st2, Inl e) \<Rightarrow> Some (migration_failed st2 e)
          | Some (st2, Inr u) \<Rightarrow>
              Some (st2\<lparr>log := log st2 @
                      [logger_info [Text ''Migration completed successfully'']]\<rparr>, Inr ()))"
    unfolding assms(2) by blast
  have "\<exists>s'. batch_loop ?body (JArray contacts) (Fin (of_nat B)) (Fin 0) s0
                 = batch_loop ?body (JArray contacts) (Fin (of_nat B)) (Fin (of_nat (?n * B))) s'
               \<and> ?P s0 ?n s'"
  proof (rule batch_loop_prefix)
    show "?P s0 0 s0" by simp
  next
    fix j and s :: "TwentyContact effects"
    assume "j < ?n" and inv: "?P s0 j s"
    from assms(4) have "twenty_post w (length (twenty_requests s)) = None" by simp
    from processBatch_contacts_ok [OF this, of contacts "j * B" B] inv
    show "\<exists>s'. ?body (Fin (of_nat (j * B))) s = (s', Inr ()) \<and> ?P s0 (Suc j) s'"
      by auto
  next
    fix j
    assume "j < ?n"
    then show "j * B < length contacts" using assms(1) by (rule batch_inside)
  qed
  then obtain s' where
    loop: "batch_loop ?body (JArray contacts) (Fin (of_nat B)) (Fin 0) s0
            = batch_loop ?body (JArray contacts) (Fin (of_nat B)) (Fin (of_nat (?n * B))) s'"
    and reqs: "?P s0 ?n s'"
    by blast
  from batches_cover [OF assms(1)] have "length contacts \<le> ?n * B" .
  then have stop: "batch_loop ?body (JArray contacts) (Fin (of_nat B)) (Fin (of_nat (?n * B))) s'
      = Some (s', Inr ())"
    by (rule batch_loop_stop)
  let ?st' = "s'\<lparr>log := log s' @ [logger_info [Text ''Migration completed successfully'']]\<rparr>"
  have "migrateContacts rt w cfg st = Some (?st', Inr ())"
    unfolding run loop stop by simp
  moreover have "twenty_requests ?st' = twenty_requests st @
         map (\<lambda>k. (''/batch/people'',
                 js_map mapToTwentyContact (take B (drop (k * B) contacts)))) [0..<?n]"
    using reqs s0 by simp
  ultimately show ?thesis by blast
qed

text \<open>The date format: what \<open>toISOString\<close> writes, \<open>Date.parse\<close> reads back.\<close>

lemma div_bounds:
  fixes x c :: int
  assumes "0 < c"
  shows "c * (x div c) \<le> x" and "x < c * (x div c) + c"
proof -
  have eq: "c * (x div c) + x mod c = x" by simp
  from assms have "0 \<le> x mod c" by simp
  with eq show "c * (x div c) \<le> x" by linarith
  from assms have "x mod c < c" by simp
  with eq show "x < c * (x div c) + c" by linarith
qed

lemma estimate_low: "day_from_year (1970 + (400 * day) div 146097 - 1) \<le> day"
proof -
  define q where "q = (400 * day) div 146097"
  define a where "a = q div 4"
  define b where "b = (q + 68) div 100"
  define c where "c = (q + 368) div 400"
  have q: "146097 * q \<le> 400 * day"
    unfolding q_def by (rule div_bounds) simp
  have a: "4 * a \<le> q" unfolding a_def by (rule div_bounds) simp
  have b: "q + 68 < 100 * b + 100" unfolding b_def by (rule div_bounds) simp
  have c: "400 * c \<le> q + 368" unfolding c_def by (rule div_bounds) simp
  have "day_from_year (1970 + q - 1) = 365 * q - 365 + a - b + c"
    by (simp add: day_from_year_def a_def b_def c_def add.commute)
  also from q a b c have "\<dots> \<le> day" by linarith
  finally show ?thesis unfolding q_def .
qed

lemma estimate_high: "day < day_from_year (1970 + (400 * day) div 146097 + 2)"
proof -
  define q where "q = (400 * day) div 146097"
  define a where "a = (q + 3) div 4"
  define b where "b = (q + 71) div 100"
  define c where "c = (q + 371) div 400"
  have q: "400 * day < 146097 * q + 146097"
    unfolding q_def by (rule div_bounds) simp
  have a: "q + 3 < 4 * a + 4" unfolding a_def by (rule div_bounds) simp
  have b: "100 * b \<le> q + 71" unfolding b_def by (rule div_bounds) simp
  have c: "q + 371 < 400 * c + 400" unfolding c_def by (rule div_bounds) simp
  have eq: "day_from_year (1970 + q + 2) = 365 * q + 730 + a - b + c"
    by (simp add: day_from_year_def a_def b_def c_def add.commute)
  from q a b c have "day < 365 * q + 730 + a - b + c" by linarith
  with eq have "day < day_from_year (1970 + q + 2)" by simp
  then show ?thesis unfolding q_def .
qed

lemma div_step:
  fixes x c :: int
  assumes "0 < c"
  shows "(x + 1) div c = x div c + (if (x + 1) mod c = 0 then 1 else 0)"
proof (cases "x mod c + 1 < c")
  case True
  have eq: "x + 1 = c * (x div c) + (x mod c + 1)" by simp
  from assms have nonneg: "0 \<le> x mod c + 1" by (simp add: add_nonneg_nonneg)
  from eq nonneg True have "(x + 1) div c = x div c" by (rule int_div_pos_eq)
  moreover from eq nonneg True have "(x + 1) mod c = x mod c + 1" by (rule int_mod_pos_eq)
  moreover from assms have "0 \<le> x mod c" by simp
  ultimately show ?thesis by simp
next
  case False
  moreover from assms have "x mod c < c" by simp
  ultimately have last: "x mod c + 1 = c" by simp
  have "x + 1 = c * (x div c) + (x mod c + 1)" by simp
  with last have eq: "x + 1 = c * (x div c + 1) + 0" by (simp add: algebra_simps)
  from eq _ assms have "(x + 1) div c = x div c + 1" by (rule int_div_pos_eq) simp
  moreover from eq _ assms have "(x + 1) mod c = 0" by (rule int_mod_pos_eq) simp
  ultimately show ?thesis by simp
qed

lemma leap_shift:
  fixes y :: int
  shows "(y - 1969 + 1) mod 4 = y mod 4"
    and "(y - 1901 + 1) mod 100 = y mod 100"
    and "(y - 1601 + 1) mod 400 = y mod 400"
proof -
  have "y - 1969 + 1 = y + 4 * (- 492)" "y - 1901 + 1 = y + 100 * (- 19)"
    "y - 1601 + 1 = y + 400 * (- 4)" by simp_all
  then show "(y - 1969 + 1) mod 4 = y mod 4"
    and "(y - 1901 + 1) mod 100 = y mod 100"
    and "(y - 1601 + 1) mod 400 = y mod 400"
    by (simp_all only: mod_mult_self2)
qed

lemma day_from_year_Suc:
  "day_from_year (y + 1) = day_from_year y + (if leap_year y then 366 else 365)"
proof -
  have 1: "(y + 1 - 1969) div 4 = (y - 1969) div 4 + (if y mod 4 = 0 then 1 else 0)"
    using div_step [of 4 "y - 1969"] leap_shift(1) [of y] by (simp add: algebra_simps)
  have 2: "(y + 1 - 1901) div 100 = (y - 1901) div 100 + (if y mod 100 = 0 then 1 else 0)"
    using div_step [of 100 "y - 1901"] leap_shift(2) [of y] by (simp add: algebra_simps)
  have 3: "(y + 1 - 1601) div 400 = (y - 1601) div 400 + (if y mod 400 = 0 then 1 else 0)"
    using div_step [of 400 "y - 1601"] leap_shift(3) [of y] by (simp add: algebra_simps)
  have a: "y mod 400 = 0 \<Longrightarrow> y mod 100 = 0"
    using dvd_trans [of 100 400 y] by (simp add: mod_eq_0_iff_dvd)
  have b: "y mod 100 = 0 \<Longrightarrow> y mod 4 = 0"
    using dvd_trans [of 4 100 y] by (simp add: mod_eq_0_iff_dvd)
  have "day_from_year (y + 1) =
      365 * (y - 1970) + 365 + (y + 1 - 1969) div 4 - (y + 1 - 1901) div 100
        + (y + 1 - 1601) div 400"
    by (simp add: day_from_year_def)
  also have "\<dots> = day_from_year y + 365 + (if y mod 4 = 0 then 1 else 0)
      - (if y mod 100 = 0 then 1 else 0) + (if y mod 400 = 0 then 1 else 0)"
    unfolding 1 2 3 by (simp add: day_from_year_def)
  also have "\<dots> = day_from_year y + (if leap_year y then 366 else 365)"
    using a b by (cases "y mod 4 = 0"; cases "y mod 100 = 0"; cases "y mod 400 = 0")
      (simp_all add: leap_year_def)
  finally show ?thesis .
qed

lemma year_from_day_bounds:
  "day_from_year (year_from_day day) \<le> day"
  "day < day_from_year (year_from_day day + 1)"
proof -
  define y0 where "y0 = 1970 + (400 * day) div 146097"
  have low: "day_from_year (y0 - 1) \<le> day"
    unfolding y0_def by (rule estimate_low)
  have high: "day < day_from_year (y0 + 1 + 1)"
    using estimate_high [of day] unfolding y0_def by (simp add: add.assoc)
  have mid: "day_from_year (y0 - 1 + 1) = day_from_year y0" by simp
  show "day_from_year (year_from_day day) \<le> day"
    using low unfolding year_from_day_def year_near_def y0_def [symmetric] by simp
  show "day < day_from_year (year_from_day day + 1)"
    using high mid unfolding year_from_day_def year_near_def y0_def [symmetric] by auto
qed

lemma month_start_values:
  "month_start leap 1 = 0" "month_start leap 2 = 31"
  "month_start leap 3 = (if leap then 60 else 59)" "month_start leap 4 = (if leap then 91 else 90)"
  "month_start leap 5 = (if leap then 121 else 120)" "month_start leap 6 = (if leap then 152 else 151)"
  "month_start leap 7 = (if leap then 182 else 181)" "month_start leap 8 = (if leap then 213 else 212)"
  "month_start leap 9 = (if leap then 244 else 243)" "month_start leap 10 = (if leap then 274 else 273)"
  "month_start leap 11 = (if leap then 305 else 304)" "month_start leap 12 = (if leap then 335 else 334)"
  by (simp_all add: month_start_def)

lemma month_from_day_range:
  assumes "0 \<le> dwy" and "dwy < (if leap then 366 else 365)"
  shows "1 \<le> month_from_day leap dwy \<and> month_from_day leap dwy \<le> 12
    \<and> 1 \<le> dwy - month_start leap (month_from_day leap dwy) + 1
    \<and> dwy - month_start leap (month_from_day leap dwy) + 1
          \<le> days_in_month leap (month_from_day leap dwy)"
  using assms
  by (cases leap) (simp_all add: month_from_day_def month_start_values days_in_month_def)

lemma digit_of_digit_char: "d < 10 \<Longrightarrow> digit_of (digit_char d) = Some d"
proof -
  assume "d < 10"
  then have "d \<in> {0, 1, 2, 3, 4, 5, 6, 7, 8, 9}" by auto
  then show ?thesis
    by (elim insertE emptyE) (simp_all add: digit_char_def digit_of_def)
qed

lemma length_pad: "length (pad w n) = w"
  by (induction w arbitrary: n) simp_all

lemma decimal_from_append:
  "decimal_from n (xs @ ys) =
     (case decimal_from n xs of None \<Rightarrow> None | Some k \<Rightarrow> decimal_from k ys)"
  by (induction xs arbitrary: n) (simp_all split: option.split)

lemma decimal_from_pad: "decimal_from a (pad w n) = Some (a * 10 ^ w + n mod 10 ^ w)"
proof (induction w arbitrary: n)
  case 0
  show ?case by simp
next
  case (Suc w)
  have "n mod (10 * 10 ^ w) = 10 * (n div 10 mod 10 ^ w) + n mod 10"
    by (rule mod_mult2_eq)
  then show ?case
    by (simp add: decimal_from_append Suc digit_of_digit_char algebra_simps)
qed

lemma decimal_value_pad:
  assumes "0 < w" and "n < 10 ^ w"
  shows "decimal_value (pad w n) = Some n"
proof -
  from assms(1) have "pad w n \<noteq> []"
    using length_pad [of w n] by auto
  with assms(2) show ?thesis
    by (simp add: decimal_value_def decimal_from_pad)
qed

lemma hd_pad_digit:
  assumes "0 < w"
  shows "digit_of (hd (pad w n)) \<noteq> None"
  using assms
proof (induction w arbitrary: n)
  case 0
  then show ?case by simp
next
  case (Suc w)
  show ?case
  proof (cases "w = 0")
    case True
    then show ?thesis by (simp add: digit_of_digit_char)
  next
    case False
    then have "pad w (n div 10) \<noteq> []" using length_pad [of w "n div 10"] by auto
    then have "hd (pad (Suc w) n) = hd (pad w (n div 10))" by simp
    with Suc.IH [of "n div 10"] False show ?thesis by simp
  qed
qed

lemma pad_Cons:
  assumes "0 < w"
  obtains c cs where "pad w n = c # cs" and "digit_of c \<noteq> None"
proof -
  from assms have "pad w n \<noteq> []" using length_pad [of w n] by auto
  then obtain c cs where eq: "pad w n = c # cs" by (cases "pad w n") auto
  with hd_pad_digit [OF assms, of n] have "digit_of c \<noteq> None" by simp
  with eq show ?thesis by (rule that)
qed

lemma digit_of_signs: "digit_of CHR ''+'' = None" "digit_of CHR ''-'' = None"
  by (simp_all add: digit_of_def)

lemma year_of_year_string:
  assumes "- 999999 \<le> y" and "y \<le> 999999"
  shows "year_of (year_string y @ rest) = Some (y, rest)"
proof (cases "0 \<le> y \<and> y \<le> 9999")
  case True
  obtain c cs where eq: "pad 4 (nat y) = c # cs" and digit: "digit_of c \<noteq> None"
    by (rule pad_Cons [of 4 "nat y"]) simp
  from digit have sign: "c \<noteq> CHR ''+''" "c \<noteq> CHR ''-''"
    using digit_of_signs by auto
  from True have "nat y < 10 ^ 4" by auto
  then have dv: "decimal_value (pad 4 (nat y)) = Some (nat y)"
    by (intro decimal_value_pad) simp_all
  have "take 1 (year_string y @ rest) = [c]"
    using True eq by (simp add: year_string_def)
  moreover have "take 4 (year_string y @ rest) = pad 4 (nat y)"
    using True by (simp add: year_string_def length_pad)
  moreover have "drop 4 (year_string y @ rest) = rest"
    using True by (simp add: year_string_def length_pad)
  moreover have "4 \<le> length (year_string y @ rest)"
    using True by (simp add: year_string_def length_pad)
  ultimately show ?thesis
    using sign dv True by (simp add: year_of_def)
next
  case False
  from assms have "nat \<bar>y\<bar> < 10 ^ 6" by auto
  then have dv: "decimal_value (pad 6 (nat \<bar>y\<bar>)) = Some (nat \<bar>y\<bar>)"
    by (intro decimal_value_pad) simp_all
  let ?s = "year_string y @ rest"
  have ys: "year_string y = (if y < 0 then CHR ''-'' else CHR ''+'') # pad 6 (nat \<bar>y\<bar>)"
    by (simp only: year_string_def False if_False)
  have 1: "take 6 (drop 1 ?s) = pad 6 (nat \<bar>y\<bar>)" by (simp add: ys length_pad)
  have 2: "drop 7 ?s = rest" by (simp add: ys length_pad)
  have 3: "7 \<le> length ?s" by (simp add: ys length_pad)
  show ?thesis
  proof (cases "y < 0")
    case True
    then have "take 1 ?s = ''-''" by (simp add: ys)
    with True 1 2 3 dv show ?thesis by (simp add: year_of_def)
  next
    case neg: False
    then have "take 1 ?s = ''+''" by (simp add: ys)
    with neg 1 2 3 dv show ?thesis by (simp add: year_of_def)
  qed
qed

lemma month_day_of_string:
  assumes "1 \<le> m" and "m \<le> 12" and "1 \<le> d" and "d \<le> days_in_month (leap_year y) m"
  shows "month_day_of y (''-'' @ pad 2 (nat m) @ ''-'' @ pad 2 (nat d))
       = Some (days_from_civil y m d)"
proof -
  from assms(4) have "d \<le> 31" by (simp add: days_in_month_def split: if_splits)
  with assms(3) have d: "nat d < 10 ^ 2" "1 \<le> nat d" "int (nat d) = d" by auto
  from assms(1,2) have m: "nat m < 10 ^ 2" "1 \<le> nat m" "nat m \<le> 12" "int (nat m) = m" by auto
  have vm: "decimal_value (pad 2 (nat m)) = Some (nat m)"
    using m(1) by (intro decimal_value_pad) simp_all
  have vd: "decimal_value (pad 2 (nat d)) = Some (nat d)"
    using d(1) by (intro decimal_value_pad) simp_all
  let ?r = "''-'' @ pad 2 (nat m) @ ''-'' @ pad 2 (nat d)"
  have parts: "length ?r = 6" "take 1 ?r = ''-''" "take 1 (drop 3 ?r) = ''-''"
    "take 2 (drop 1 ?r) = pad 2 (nat m)" "drop 4 ?r = pad 2 (nat d)"
    by (simp_all add: length_pad)
  show ?thesis
    unfolding month_day_of_def parts vm vd
    using m d assms(4) by simp
qed

lemma time_parts:
  fixes ms :: nat
  assumes "ms < 86400000"
  shows "ms div 3600000 \<le> 23"
    and "ms div 3600000 * 3600000 + ms div 60000 mod 60 * 60000 + ms div 1000 mod 60 * 1000
           + ms mod 1000 = ms"
proof -
  from assms show "ms div 3600000 \<le> 23" by simp
  define s where "s = ms div 1000"
  define mi where "mi = s div 60"
  define f where "f = ms mod 1000"
  define s60 where "s60 = s mod 60"
  define q where "q = mi div 60"
  define r where "r = mi mod 60"
  have 1: "ms = s * 1000 + f" unfolding s_def f_def by simp
  have 2: "s = mi * 60 + s60" unfolding mi_def s60_def by simp
  have 3: "mi = q * 60 + r" unfolding q_def r_def by simp
  have a: "ms div 60000 = mi"
    unfolding mi_def s_def by (simp add: div_mult2_eq)
  have b: "ms div 3600000 = q"
    unfolding q_def mi_def s_def by (simp add: div_mult2_eq)
  from 1 2 3 have "q * 3600000 + r * 60000 + s60 * 1000 + f = ms" by linarith
  then show "ms div 3600000 * 3600000 + ms div 60000 mod 60 * 60000
      + ms div 1000 mod 60 * 1000 + ms mod 1000 = ms"
    unfolding a b r_def [symmetric] s_def [symmetric] s60_def [symmetric] f_def [symmetric] .
qed

lemma time_of_string:
  assumes "ms < 86400000"
  shows "time_of (''T'' @ time_string ms @ ''Z'') = Some (int ms)"
proof -
  let ?h = "ms div 3600000" and ?mi = "ms div 60000 mod 60" and ?s = "ms div 1000 mod 60"
    and ?f = "ms mod 1000"
  from time_parts(1) [OF assms] have "?h < 10 ^ 2" by simp
  then have vh: "decimal_value (pad 2 ?h) = Some ?h" by (intro decimal_value_pad) simp_all
  have "?mi < 10 ^ 2" using mod_less_divisor [of 60 "ms div 60000"] by simp
  then have vmi: "decimal_value (pad 2 ?mi) = Some ?mi" by (intro decimal_value_pad) simp_all
  have "?s < 10 ^ 2" using mod_less_divisor [of 60 "ms div 1000"] by simp
  then have vs: "decimal_value (pad 2 ?s) = Some ?s" by (intro decimal_value_pad) simp_all
  have "?f < 10 ^ 3" by simp
  then have vf: "decimal_value (pad 3 ?f) = Some ?f" by (intro decimal_value_pad) simp_all
  let ?r = "''T'' @ time_string ms @ ''Z''"
  have parts: "length ?r = 14" "take 1 ?r = ''T''" "take 1 (drop 3 ?r) = '':''"
    "take 1 (drop 6 ?r) = '':''" "take 1 (drop 9 ?r) = ''.''" "drop 13 ?r = ''Z''"
    "take 2 (drop 1 ?r) = pad 2 ?h" "take 2 (drop 4 ?r) = pad 2 ?mi"
    "take 2 (drop 7 ?r) = pad 2 ?s" "take 3 (drop 10 ?r) = pad 3 ?f"
    by (simp_all add: time_string_def length_pad)
  have le: "n mod 60 \<le> 59" for n :: nat
    using mod_less_divisor [of 60 n] by linarith
  show ?thesis
    unfolding time_of_def parts vh vmi vs vf
    using time_parts [OF assms] le by simp
qed

lemma civil_from_days_valid:
  assumes "civil_from_days day = (y, m, d)"
  shows "1 \<le> m" and "m \<le> 12" and "1 \<le> d" and "d \<le> days_in_month (leap_year y) m"
    and "days_from_civil y m d = day"
    and "day_from_year y \<le> day" and "day < day_from_year (y + 1)"
proof -
  from assms have y: "y = year_from_day day"
    and m: "m = month_from_day (leap_year y) (day - day_from_year y)"
    and d: "d = day - day_from_year y - month_start (leap_year y) m + 1"
    by (auto simp: civil_from_days_def civil_from_year_def civil_in_year_def)
  from year_from_day_bounds [of day] y
  show low: "day_from_year y \<le> day" and high: "day < day_from_year (y + 1)" by simp_all
  from low have 0: "0 \<le> day - day_from_year y" by simp
  from high have 1: "day - day_from_year y < (if leap_year y then 366 else 365)"
    unfolding day_from_year_Suc by (simp split: if_splits)
  from month_from_day_range [OF 0 1] m d
  show "1 \<le> m" and "m \<le> 12" and "1 \<le> d" and "d \<le> days_in_month (leap_year y) m"
    by simp_all
  from d show "days_from_civil y m d = day" by (simp add: days_from_civil_def)
qed

lemma year_range:
  assumes "day_from_year y \<le> day" and "day < day_from_year (y + 1)"
    and "- 100000000 \<le> day" and "day \<le> 100000000"
  shows "- 999999 \<le> y" and "y \<le> 999999"
proof -
  define a where "a = (y - 1969) div 4"
  define b where "b = (y - 1901) div 100"
  define c where "c = (y - 1601) div 400"
  have a: "4 * a \<le> y - 1969" "y - 1969 < 4 * a + 4"
    unfolding a_def by (rule div_bounds; simp)+
  have b: "100 * b \<le> y - 1901" "y - 1901 < 100 * b + 100"
    unfolding b_def by (rule div_bounds; simp)+
  have c: "400 * c \<le> y - 1601" "y - 1601 < 400 * c + 400"
    unfolding c_def by (rule div_bounds; simp)+
  have eq: "day_from_year y = 365 * y - 719050 + a - b + c"
    by (simp add: day_from_year_def a_def b_def c_def)
  from assms(1,4) have "365 * y - 719050 + a - b + c \<le> 100000000" unfolding eq by simp
  with a b c show "y \<le> 999999" by linarith
  have "day_from_year (y + 1) \<le> day_from_year y + 366"
    unfolding day_from_year_Suc by simp
  with assms(2,3) have "- 100000000 < 365 * y - 719050 + a - b + c + 366" unfolding eq by simp
  with a b c show "- 999999 \<le> y" by linarith
qed

lemma iso_round_trip:
  assumes "valid_time t"
  shows "iso_Date_parse (iso_toISOString t) = Some t"
proof -
  define day where "day = t div 86400000"
  define ms where "ms = nat (t mod 86400000)"
  obtain y m d where civil: "civil_from_days day = (y, m, d)"
    by (cases "civil_from_days day") auto
  note c = civil_from_days_valid [OF civil]
  have t: "t = day * 86400000 + int ms"
    unfolding day_def ms_def by simp
  have ms: "ms < 86400000" unfolding ms_def by simp
  from assms have "(- 8640000000000000) div 86400000 \<le> t div 86400000"
    unfolding valid_time_def by (intro zdiv_mono1) simp_all
  moreover from assms have "t div 86400000 \<le> 8640000000000000 div 86400000"
    unfolding valid_time_def by (intro zdiv_mono1) simp_all
  ultimately have "- 100000000 \<le> day" "day \<le> 100000000"
    unfolding day_def by simp_all
  with c(6,7) have y: "- 999999 \<le> y" "y \<le> 999999" by (rule year_range)+
  let ?rest = "''-'' @ pad 2 (nat m) @ ''-'' @ pad 2 (nat d) @ ''T'' @ time_string ms @ ''Z''"
  have s: "iso_toISOString t = year_string y @ ?rest"
    unfolding iso_toISOString_def day_def [symmetric] ms_def [symmetric] civil by simp
  have len: "length ?rest \<noteq> 6" by (simp add: length_pad time_string_def)
  have front: "take 6 ?rest = ''-'' @ pad 2 (nat m) @ ''-'' @ pad 2 (nat d)"
    by (simp add: length_pad)
  have rear: "drop 6 ?rest = ''T'' @ time_string ms @ ''Z''"
    by (simp add: length_pad)
  have "iso_Date_parse (iso_toISOString t) = date_time_of y ?rest"
    unfolding s iso_Date_parse_def year_of_year_string [OF y] by simp
  also have "\<dots> = TimeClip (days_from_civil y m d * 86400000 + int ms)"
    unfolding date_time_of_def front rear
      month_day_of_string [OF c(1,2,3,4)] time_of_string [OF ms]
    using len by simp
  also have "\<dots> = Some t"
    using assms unfolding c(5) t [symmetric] TimeClip_def by simp
  finally show ?thesis .
qed

lemma iso_Date_parse_valid: "iso_Date_parse s = Some t \<Longrightarrow> valid_time t"
  by (auto simp: iso_Date_parse_def date_time_of_def TimeClip_def
      split: option.splits if_splits prod.splits)

lemma example_env_valid:
  "EnvSchema_parse reference_runtime example_env = Inr example_config"
  by (simp add: EnvSchema_parse_def example_env_def example_config_def url_issue_def
      min1_issue_def with_default_def reference_runtime_def http_url_def host_char_def
      decimal_Number_def decimal_value_def digit_of_def)

lemma mapStatus_own:
  "mapStatus ''Open'' = StatusString ''TODO''"
  "mapStatus ''Completed'' = StatusString ''DONE''"
  by (simp_all add: mapStatus_def statusMap_def)

lemma mapStatus_other:
  assumes "s \<noteq> ''Open''" and "s \<noteq> ''In Progress''" and "s \<noteq> ''Completed''"
  shows "mapStatus s =
     (if s \<in> set Object_prototype_keys then PrototypeMember s else StatusString ''TODO'')"
  using assms by (simp add: mapStatus_def statusMap_def)

lemma pad_numeral:
  "pad 2 = pad (Suc (Suc 0))"
  "pad 3 = pad (Suc (Suc (Suc 0)))"
  "pad 4 = pad (Suc (Suc (Suc (Suc 0))))"
  "pad 6 = pad (Suc (Suc (Suc (Suc (Suc (Suc 0))))))"
  by (simp_all add: eval_nat_numeral)

lemma reference_runtime_dates: "ecmascript_dates reference_runtime"
  unfolding ecmascript_dates_def
  by (auto simp: reference_runtime_def iso_round_trip intro: iso_Date_parse_valid)

lemma reference_parse_undated:
  "Date_parse reference_runtime ''not a date'' = None"
  by (simp add: reference_runtime_def iso_Date_parse_def year_of_def decimal_value_def
      digit_of_def)

lemma iso_parse_date:
  "iso_Date_parse ''2024-03-15'' = Some 1710460800000"
  "iso_Date_parse ''+010000-01-01'' = Some 253402300800000"
  by (simp_all add: iso_Date_parse_def year_of_def date_time_of_def month_day_of_def
      decimal_value_def digit_of_def days_in_month_def leap_year_def days_from_civil_def
      day_from_year_def month_start_def TimeClip_def valid_time_def)


lemma civil_examples:
  "civil_from_days 0 = (1970, 1, 1)"
  "civil_from_days 19797 = (2024, 3, 15)"
  "civil_from_days 2932897 = (10000, 1, 1)"
  by (simp_all add: civil_from_days_def civil_from_year_def civil_in_year_def
      year_from_day_def year_near_def day_from_year_def leap_year_def month_from_day_def
      month_start_def)

lemma iso_toISOString_examples:
  "iso_toISOString 0 = ''1970-01-01T00:00:00.000Z''"
  "iso_toISOString 1000 = ''1970-01-01T00:00:01.000Z''"
  "iso_toISOString 1710460800000 = ''2024-03-15T00:00:00.000Z''"
  "iso_toISOString 1710498600123 = ''2024-03-15T10:30:00.123Z''"
  "iso_toISOString 253402300800000 = ''+010000-01-01T00:00:00.000Z''"
  by (simp_all add: iso_toISOString_def civil_examples year_string_def time_string_def
      pad_numeral digit_char_def)


lemma js_less_NaN: "js_less i NaN = False"
  by (cases i) simp_all

lemma batch_loop_no_length:
  assumes "js_length d = Inr None"
  shows "batch_loop body d batchSize i st = Some (st, Inr ())"
  using assms by (subst batch_loop.simps) (simp add: js_less_NaN)








lemma migrateTasks_nullish:
  assumes "zoho_get w = GetResolves d" and "js_length d = Inl e"
  shows "\<exists>st'. migrateTasks rt w cfg st = Some (st', Inl e)
     \<and> twenty_requests st' = twenty_requests st
     \<and> zoho_requests st' = zoho_requests st @ [''/crm/v2/Tasks'']"
  using assms
  by (simp add: migrateTasks_def fetchZohoTasks_def migration_failed_def Let_def)

lemma migrateContacts_nullish:
  assumes "zoho_get w = GetResolves d" and "js_length d = Inl e"
  shows "\<exists>st'. migrateContacts rt w cfg st = Some (st', Inl e)
     \<and> twenty_requests st' = twenty_requests st
     \<and> zoho_requests st' = zoho_requests st @ [''/crm/v2/Contacts'']"
  using assms
  by (simp add: migrateContacts_def fetchZohoContacts_def migration_failed_def Let_def)

lemma migrateTasks_no_length:
  assumes "zoho_get w = GetResolves d" and "js_length d = Inr None"
  shows "\<exists>st'. migrateTasks rt w cfg st = Some (st', Inr ())
     \<and> twenty_requests st' = twenty_requests st
     \<and> zoho_requests st' = zoho_requests st @ [''/crm/v2/Tasks'']"
  using assms
  by (simp add: migrateTasks_def fetchZohoTasks_def Let_def batch_loop_no_length)

lemma migrateContacts_no_length:
  assumes "zoho_get w = GetResolves d" and "js_length d = Inr None"
  shows "\<exists>st'. migrateContacts rt w cfg st = Some (st', Inr ())
     \<and> twenty_requests st' = twenty_requests st
     \<and> zoho_requests st' = zoho_requests st @ [''/crm/v2/Contacts'']"
  using assms
  by (simp add: migrateContacts_def fetchZohoContacts_def Let_def batch_loop_no_length)











subsection \<open>The claims\<close>

text \<open>
  C1 says that the \<open>i\<close>-th fetched record (counted from 0) is given the position
  \<open>i + 1\<close>, in the contact script as in the task script. The contact script does not do
  so. Here three contacts are fetched, the batch size is 2 and every write succeeds: the
  run ends with exit code 0, and the third contact is POSTed with position 1, the
  position the first contact already has, since \<open>batch.map(mapToTwentyContact)\<close> numbers
  the records of each batch from 1. (In taskMigration.ts the position is
  \<open>startIndex + index + 1\<close>, see C4.)
\<close>

theorem C1_contact_positions_restart:
  "\<exists>st'. main_contacts reference_runtime contact_world = Some (st', 0)
     \<and> map (\<lambda>req. map (\<lambda>c. (firstName (name c), contact_position c)) (snd req))
            (twenty_requests st')
          = [[(''Ann'', Fin 1), (''Ben'', Fin 2)], [(''Cat'', Fin 1)]]"
proof -
  have h1: "(1::nat) \<le> 2" by simp
  have h2: "BATCH_SIZE example_config = Fin (of_nat 2)" by (simp add: example_config_def)
  have h3: "zoho_get contact_world = GetResolves (JArray example_contacts)"
    by (simp add: contact_world_def)
  have h4: "\<forall>k. twenty_post contact_world k = None" by (simp add: contact_world_def)
  from migrateContacts_batches [OF h1 h2 h3 h4, of reference_runtime no_effects] obtain st' where
    run: "migrateContacts reference_runtime contact_world example_config no_effects
            = Some (st', Inr ())"
    and reqs: "twenty_requests st' = twenty_requests (no_effects :: TwentyContact effects) @
         map (\<lambda>k. (''/batch/people'',
                 js_map mapToTwentyContact (take 2 (drop (k * 2) example_contacts))))
           [0..<(length example_contacts + 2 - 1) div 2]"
    by blast
  have n: "[0..<(length example_contacts + 2 - 1) div 2] = [0, 1]"
    by (simp add: example_contacts_def upt_conv_Cons)
  have "main_contacts reference_runtime contact_world = Some (st', 0)"
    by (simp add: main_contacts_def main_with_def contact_world_def example_env_valid
        run [unfolded contact_world_def])
  moreover have "map (\<lambda>req. map (\<lambda>c. (firstName (name c), contact_position c)) (snd req))
            (twenty_requests st')
          = [[(''Ann'', Fin 1), (''Ben'', Fin 2)], [(''Cat'', Fin 1)]]"
    unfolding reqs n
    by (simp add: no_effects_def example_contacts_def example_contact_def js_map_def
        mapToTwentyContact_def)
  ultimately show ?thesis by simp
qed

text \<open>
  C2 says that the status \<open>In Progress\<close> is translated to \<open>IN_PROGRESS\<close>. The table of
  \<open>mapStatus\<close> holds the string \<open>IN_PROGESS\<close> for it, and that is what \<open>mapStatus\<close> returns.
\<close>

theorem C2_in_progress_misspelt:
  "mapStatus ''In Progress'' = StatusString ''IN_PROGESS''
   \<and> mapStatus ''In Progress'' \<noteq> StatusString ''IN_PROGRESS''"
  by (simp add: mapStatus_def statusMap_def)




text \<open>
  C4: with a batch size \<open>B \<ge> 1\<close> and every write succeeding, the run POSTs
  \<open>ceil(N/B)\<close> bodies; the \<open>k\<close>-th is the image of the slice \<open>[k*B, k*B + B)\<close> of the fetched
  sequence; the slices, in order, concatenate to the sequence; each has \<open>B\<close> records but
  possibly the last, which has at least one. No record gives no slice and no POST.
  Read one after the other, the bodies are the fetched records in their order, the
  \<open>i\<close>-th (counted from 0) mapped with the position \<open>i + 1\<close>.
\<close>

theorem C4_partition:
  assumes "1 \<le> B" and "BATCH_SIZE cfg = Fin (of_nat B)"
    and "zoho_get w = GetResolves (JArray tasks)"
    and "\<forall>k. twenty_post w k = None"
  shows "\<exists>st'. migrateTasks rt w cfg st = Some (st', Inr ())
    \<and> twenty_requests st' = twenty_requests st @
         map (\<lambda>k. (''/batch/tasks'',
                 map_batch rt w (Fin (of_nat (k * B)))
                   (slice tasks (Fin (of_nat (k * B))) (Fin (of_nat (k * B + B))))))
           [0..<(length tasks + B - 1) div B]
    \<and> concat (map (\<lambda>k. slice tasks (Fin (of_nat (k * B))) (Fin (of_nat (k * B + B))))
                [0..<(length tasks + B - 1) div B]) = tasks
    \<and> (\<forall>k<(length tasks + B - 1) div B.
          length (slice tasks (Fin (of_nat (k * B))) (Fin (of_nat (k * B + B))))
            = (if Suc k < (length tasks + B - 1) div B then B else length tasks - k * B)
          \<and> 0 < length (slice tasks (Fin (of_nat (k * B))) (Fin (of_nat (k * B + B))))
          \<and> length (slice tasks (Fin (of_nat (k * B))) (Fin (of_nat (k * B + B)))) \<le> B)
    \<and> concat (map snd (twenty_requests st')) = concat (map snd (twenty_requests st)) @
         js_map (\<lambda>task i. mapToTwentyTask rt (clock w (Fin (of_nat (i + 1)))) task
                              (Fin (of_nat (i + 1)))) tasks
    \<and> (tasks = [] \<longrightarrow> twenty_requests st' = twenty_requests st)"
proof -
  let ?n = "(length tasks + B - 1) div B"
  let ?body = "\<lambda>i. processBatch rt w (JArray tasks) i (Fin (of_nat B))"
  let ?P = "\<lambda>(s0::TwentyTask effects) k (s::TwentyTask effects).
       twenty_requests s = twenty_requests s0 @
         map (\<lambda>j. (''/batch/tasks'',
                 map_batch rt w (Fin (of_nat (j * B))) (take B (drop (j * B) tasks)))) [0..<k]"
  from migrateTasks_array [OF assms(3), of st rt cfg] obtain s0 where
    s0: "twenty_requests s0 = twenty_requests st"
    and run: "migrateTasks rt w cfg st =
         (case batch_loop ?body (JArray tasks) (Fin (of_nat B)) (Fin 0) s0 of
            None \<Rightarrow> None
          | Some (st2, Inl e) \<Rightarrow> Some (migration_failed st2 e)
          | Some (st2, Inr u) \<Rightarrow>
              Some (st2\<lparr>log := log st2 @
                      [logger_info [Text ''Migration completed successfully'']]\<rparr>, Inr ()))"
    unfolding assms(2) by blast
  have "\<exists>s'. batch_loop ?body (JArray tasks) (Fin (of_nat B)) (Fin 0) s0
                 = batch_loop ?body (JArray tasks) (Fin (of_nat B)) (Fin (of_nat (?n * B))) s'
               \<and> ?P s0 ?n s'"
  proof (rule batch_loop_prefix)
    show "?P s0 0 s0" by simp
  next
    fix j and s :: "TwentyTask effects"
    assume "j < ?n" and inv: "?P s0 j s"
    from assms(4) have "twenty_post w (length (twenty_requests s)) = None" by simp
    from processBatch_ok [OF this, of rt tasks "j * B" B] inv
    show "\<exists>s'. ?body (Fin (of_nat (j * B))) s = (s', Inr ()) \<and> ?P s0 (Suc j) s'"
      by auto
  next
    fix j
    assume "j < ?n"
    then show "j * B < length tasks" using assms(1) by (rule batch_inside)
  qed
  then obtain s' where
    loop: "batch_loop ?body (JArray tasks) (Fin (of_nat B)) (Fin 0) s0
            = batch_loop ?body (JArray tasks) (Fin (of_nat B)) (Fin (of_nat (?n * B))) s'"
    and reqs: "?P s0 ?n s'"
    by blast
  from batches_cover [OF assms(1)] have "length tasks \<le> ?n * B" .
  then have stop: "batch_loop ?body (JArray tasks) (Fin (of_nat B)) (Fin (of_nat (?n * B))) s'
      = Some (s', Inr ())"
    by (rule batch_loop_stop)
  let ?st' = "s'\<lparr>log := log s' @ [logger_info [Text ''Migration completed successfully'']]\<rparr>"
  have 1: "migrateTasks rt w cfg st = Some (?st', Inr ())"
    unfolding run loop stop by simp
  have 2: "twenty_requests ?st' = twenty_requests st @
         map (\<lambda>k. (''/batch/tasks'',
                 map_batch rt w (Fin (of_nat (k * B)))
                   (slice tasks (Fin (of_nat (k * B))) (Fin (of_nat (k * B + B))))))
           [0..<?n]"
    using reqs s0 unfolding slice_nat by simp
  have 3: "concat (map (\<lambda>k. slice tasks (Fin (of_nat (k * B))) (Fin (of_nat (k * B + B))))
                [0..<?n]) = tasks"
    unfolding slice_nat concat_batches using \<open>length tasks \<le> ?n * B\<close> by simp
  have 4: "\<forall>k<?n.
          length (slice tasks (Fin (of_nat (k * B))) (Fin (of_nat (k * B + B))))
            = (if Suc k < ?n then B else length tasks - k * B)
          \<and> 0 < length (slice tasks (Fin (of_nat (k * B))) (Fin (of_nat (k * B + B))))
          \<and> length (slice tasks (Fin (of_nat (k * B))) (Fin (of_nat (k * B + B)))) \<le> B"
  proof (intro allI impI)
    fix k
    assume k: "k < ?n"
    from k assms(1) have lt: "k * B < length tasks" by (rule batch_inside)
    have full: "Suc k < ?n \<Longrightarrow> k * B + B \<le> length tasks"
    proof -
      assume "Suc k < ?n"
      then have "Suc k * B < length tasks" using assms(1) by (rule batch_inside)
      then show ?thesis by simp
    qed
    have last: "\<not> Suc k < ?n \<Longrightarrow> length tasks \<le> k * B + B"
    proof -
      assume "\<not> Suc k < ?n"
      with k have "?n = Suc k" by simp
      with \<open>length tasks \<le> ?n * B\<close> show ?thesis by (simp add: add.commute)
    qed
    show "length (slice tasks (Fin (of_nat (k * B))) (Fin (of_nat (k * B + B))))
            = (if Suc k < ?n then B else length tasks - k * B)
          \<and> 0 < length (slice tasks (Fin (of_nat (k * B))) (Fin (of_nat (k * B + B))))
          \<and> length (slice tasks (Fin (of_nat (k * B))) (Fin (of_nat (k * B + B)))) \<le> B"
    proof (cases "Suc k < ?n")
      case True
      with full have "k * B + B \<le> length tasks" by simp
      with True assms(1) show ?thesis unfolding slice_nat by simp
    next
      case False
      with last have "length tasks \<le> k * B + B" by simp
      with False lt show ?thesis unfolding slice_nat by simp
    qed
  qed
  have "concat (map snd (twenty_requests ?st')) = concat (map snd (twenty_requests st)) @
      concat (map (\<lambda>j. map_batch rt w (Fin (of_nat (j * B))) (take B (drop (j * B) tasks)))
                [0..<?n])"
    using reqs s0 by (simp add: comp_def)
  also have "concat (map (\<lambda>j. map_batch rt w (Fin (of_nat (j * B))) (take B (drop (j * B) tasks)))
                [0..<?n])
      = js_map (\<lambda>task i. mapToTwentyTask rt (clock w (Fin (of_nat (i + 1)))) task
                            (Fin (of_nat (i + 1)))) tasks"
    using \<open>length tasks \<le> ?n * B\<close> by (rule concat_map_batch)
  finally have 5: "concat (map snd (twenty_requests ?st')) =
      concat (map snd (twenty_requests st)) @
      js_map (\<lambda>task i. mapToTwentyTask rt (clock w (Fin (of_nat (i + 1)))) task
                           (Fin (of_nat (i + 1)))) tasks" .
  have 6: "tasks = [] \<longrightarrow> twenty_requests ?st' = twenty_requests st"
    using reqs s0 assms(1) by simp
  from 1 2 3 4 5 6 show ?thesis by blast
qed

theorem C4_partition_witness:
  "(1::nat) \<le> 2 \<and> BATCH_SIZE example_config = Fin (of_nat 2)
   \<and> zoho_get example_world = GetResolves (JArray example_tasks)
   \<and> (\<exists>st'. migrateTasks reference_runtime example_world example_config no_effects
                = Some (st', Inr ())
          \<and> map (\<lambda>req. map position (snd req)) (twenty_requests st')
                = [[Fin 1, Fin 2], [Fin 3]]
          \<and> map (\<lambda>req. map title (snd req)) (twenty_requests st')
                = [[''Call the supplier'', ''Send the quote''], [''Archive the contract'']])"
proof -
  have h1: "(1::nat) \<le> 2" by simp
  have h2: "BATCH_SIZE example_config = Fin (of_nat 2)" by (simp add: example_config_def)
  have h3: "zoho_get example_world = GetResolves (JArray example_tasks)"
    by (simp add: example_world_def)
  have h4: "\<forall>k. twenty_post example_world k = None" by (simp add: example_world_def)
  from C4_partition [OF h1 h2 h3 h4, of reference_runtime no_effects] obtain st' where
    run: "migrateTasks reference_runtime example_world example_config no_effects
            = Some (st', Inr ())"
    and reqs: "twenty_requests st' = twenty_requests (no_effects :: TwentyTask effects) @
         map (\<lambda>k. (''/batch/tasks'',
                 map_batch reference_runtime example_world (Fin (of_nat (k * 2)))
                   (slice example_tasks (Fin (of_nat (k * 2))) (Fin (of_nat (k * 2 + 2))))))
           [0..<(length example_tasks + 2 - 1) div 2]"
    by blast
  have n: "[0..<(length example_tasks + 2 - 1) div 2] = [0, 1]"
    by (simp add: example_tasks_def upt_conv_Cons)
  have "map (\<lambda>req. map position (snd req)) (twenty_requests st') = [[Fin 1, Fin 2], [Fin 3]]"
    unfolding reqs n slice_nat
    by (simp add: no_effects_def example_tasks_def map_batch_def js_map_def
        mapToTwentyTask_def)
  moreover have "map (\<lambda>req. map title (snd req)) (twenty_requests st')
      = [[''Call the supplier'', ''Send the quote''], [''Archive the contract'']]"
    unfolding reqs n slice_nat
    by (simp add: no_effects_def example_tasks_def map_batch_def js_map_def
        mapToTwentyTask_def)
  ultimately show ?thesis using h1 h2 h3 run by simp
qed

text \<open>
  C5: when the destination rejects the POST of batch \<open>k\<close> (counted from 0) after
  accepting the earlier ones, the process exits with code 1; the destination has
  received exactly one POST for each of the batches \<open>0..k\<close>, in order, and nothing else (no
  later batch, no request that undoes an earlier one); only the \<open>k\<close> accepted batches
  were followed by a pause; the last log record reports the error thrown.
\<close>

theorem C5_abort_on_failed_write:
  assumes "EnvSchema_parse rt (process_env w) = Inr cfg"
    and "BATCH_SIZE cfg = Fin (of_nat B)" and "1 \<le> B"
    and "zoho_get w = GetResolves (JArray tasks)"
    and "k < (length tasks + B - 1) div B"
    and "\<forall>j<k. twenty_post w j = None"
    and "twenty_post w k = Some (m, r)"
  shows "\<exists>st'. main rt w = Some (st', 1)
    \<and> twenty_requests st' =
         map (\<lambda>j. (''/batch/tasks'',
                 map_batch rt w (Fin (of_nat (j * B)))
                   (slice tasks (Fin (of_nat (j * B))) (Fin (of_nat (j * B + B))))))
           [0..<Suc k]
    \<and> zoho_requests st' = [''/crm/v2/Tasks'']
    \<and> delays st' = k
    \<and> last (log st') = logger_error ''Unexpected error''
         (ErrorMeta (Error (''API Error: '' @
              (case response_data_message (AxiosError m r) of
                 None \<Rightarrow> m
               | Some dm \<Rightarrow> if dm = [] then m else dm))))"
proof -
  let ?n = "(length tasks + B - 1) div B"
  let ?body = "\<lambda>i. processBatch rt w (JArray tasks) i (Fin (of_nat B))"
  let ?e = "Error (''API Error: '' @
              (case response_data_message (AxiosError m r) of
                 None \<Rightarrow> m
               | Some dm \<Rightarrow> if dm = [] then m else dm))"
  let ?P = "\<lambda>k (s::TwentyTask effects).
       twenty_requests s =
         map (\<lambda>j. (''/batch/tasks'',
                 map_batch rt w (Fin (of_nat (j * B))) (take B (drop (j * B) tasks)))) [0..<k]
       \<and> zoho_requests s = [''/crm/v2/Tasks''] \<and> delays s = k"
  from migrateTasks_array [OF assms(4), of no_effects rt cfg] obtain s0 where
    s0: "twenty_requests s0 = []" "zoho_requests s0 = [''/crm/v2/Tasks'']" "delays s0 = 0"
    and run: "migrateTasks rt w cfg no_effects =
         (case batch_loop ?body (JArray tasks) (Fin (of_nat B)) (Fin 0) s0 of
            None \<Rightarrow> None
          | Some (st2, Inl e) \<Rightarrow> Some (migration_failed st2 e)
          | Some (st2, Inr u) \<Rightarrow>
              Some (st2\<lparr>log := log st2 @
                      [logger_info [Text ''Migration completed successfully'']]\<rparr>, Inr ()))"
    unfolding assms(2) by (auto simp: no_effects_def)
  have "\<exists>s'. batch_loop ?body (JArray tasks) (Fin (of_nat B)) (Fin 0) s0
                 = batch_loop ?body (JArray tasks) (Fin (of_nat B)) (Fin (of_nat (k * B))) s'
               \<and> ?P k s'"
  proof (rule batch_loop_prefix)
    from s0 show "?P 0 s0" by simp
  next
    fix j and s :: "TwentyTask effects"
    assume j: "j < k" and inv: "?P j s"
    from assms(6) j inv have "twenty_post w (length (twenty_requests s)) = None" by simp
    from processBatch_ok [OF this, of rt tasks "j * B" B] inv
    show "\<exists>s'. ?body (Fin (of_nat (j * B))) s = (s', Inr ()) \<and> ?P (Suc j) s'"
      by auto
  next
    fix j
    assume "j < k"
    with assms(5) have "j < ?n" by simp
    then show "j * B < length tasks" using assms(3) by (rule batch_inside)
  qed
  then obtain sk where
    loop: "batch_loop ?body (JArray tasks) (Fin (of_nat B)) (Fin 0) s0
            = batch_loop ?body (JArray tasks) (Fin (of_nat B)) (Fin (of_nat (k * B))) sk"
    and inv: "?P k sk"
    by blast
  from assms(7) inv have "twenty_post w (length (twenty_requests sk)) = Some (m, r)" by simp
  from processBatch_fail [OF this, of rt tasks "k * B" B] inv obtain s' where
    fail: "?body (Fin (of_nat (k * B))) sk = (s', Inl ?e)"
    and reqs: "twenty_requests s' =
         map (\<lambda>j. (''/batch/tasks'',
                 map_batch rt w (Fin (of_nat (j * B))) (take B (drop (j * B) tasks)))) [0..<Suc k]"
    and rest: "zoho_requests s' = [''/crm/v2/Tasks'']" "delays s' = k"
    by auto
  from assms(5) assms(3) have "k * B < length tasks" by (rule batch_inside)
  then have stop: "batch_loop ?body (JArray tasks) (Fin (of_nat B)) (Fin (of_nat (k * B))) sk
      = Some (s', Inl ?e)"
    using fail by (rule batch_loop_fail)
  let ?s1 = "s'\<lparr>log := log s' @ [logger_error ''Migration failed'' (ErrorMeta ?e)]\<rparr>"
  let ?st' = "?s1\<lparr>log := log ?s1 @ [logger_error ''Unexpected error'' (ErrorMeta ?e)]\<rparr>"
  have "migrateTasks rt w cfg no_effects = Some (?s1, Inl ?e)"
    unfolding run loop stop by (simp add: migration_failed_def)
  then have 1: "main rt w = Some (?st', 1)"
    unfolding main_valid_config [OF assms(1)] by simp
  have 2: "twenty_requests ?st' =
         map (\<lambda>j. (''/batch/tasks'',
                 map_batch rt w (Fin (of_nat (j * B)))
                   (slice tasks (Fin (of_nat (j * B))) (Fin (of_nat (j * B + B))))))
           [0..<Suc k]"
    using reqs unfolding slice_nat by simp
  have 3: "zoho_requests ?st' = [''/crm/v2/Tasks'']" "delays ?st' = k"
    using rest by simp_all
  have 4: "last (log ?st') = logger_error ''Unexpected error'' (ErrorMeta ?e)" by simp
  from 1 2 3 4 show ?thesis by blast
qed

theorem C5_abort_on_failed_write_witness:
  "EnvSchema_parse reference_runtime (process_env failing_world)
     = Inr (example_config\<lparr>BATCH_SIZE := Fin (of_nat 1)\<rparr>)
   \<and> zoho_get failing_world = GetResolves (JArray example_tasks)
   \<and> (1::nat) < (length example_tasks + 1 - 1) div 1
   \<and> twenty_post failing_world 0 = None
   \<and> twenty_post failing_world 1
        = Some (''Request failed with status code 500'',
                Some (500, Some ''Internal server error''))
   \<and> (\<exists>st'. main reference_runtime failing_world = Some (st', 1)
          \<and> map (\<lambda>req. map position (snd req)) (twenty_requests st') = [[Fin 1], [Fin 2]]
          \<and> delays st' = 1
          \<and> last (log st') = logger_error ''Unexpected error''
                (ErrorMeta (Error ''API Error: Internal server error'')))"
proof -
  let ?cfg = "example_config\<lparr>BATCH_SIZE := Fin (of_nat 1)\<rparr>"
  let ?m = "''Request failed with status code 500''"
  let ?r = "Some (500::nat, Some ''Internal server error'')"
  have h1: "EnvSchema_parse reference_runtime (process_env failing_world) = Inr ?cfg"
    by (simp add: EnvSchema_parse_def failing_world_def example_world_def example_env_def
        example_config_def url_issue_def min1_issue_def with_default_def reference_runtime_def
        http_url_def host_char_def decimal_Number_def decimal_value_def digit_of_def)
  have h2: "BATCH_SIZE ?cfg = Fin (of_nat 1)" by simp
  have h3: "(1::nat) \<le> 1" by simp
  have h4: "zoho_get failing_world = GetResolves (JArray example_tasks)"
    by (simp add: failing_world_def example_world_def)
  have h5: "(1::nat) < (length example_tasks + 1 - 1) div 1"
    by (simp add: example_tasks_def)
  have h6: "\<forall>j<1. twenty_post failing_world j = None"
    by (simp add: failing_world_def example_world_def)
  have h7: "twenty_post failing_world 1 = Some (?m, ?r)"
    by (simp add: failing_world_def example_world_def)
  from C5_abort_on_failed_write [OF h1 h2 h3 h4 h5 h6 h7] obtain st' where
    run: "main reference_runtime failing_world = Some (st', 1)"
    and reqs: "twenty_requests st' =
         map (\<lambda>j. (''/batch/tasks'',
                 map_batch reference_runtime failing_world (Fin (of_nat (j * 1)))
                   (slice example_tasks (Fin (of_nat (j * 1))) (Fin (of_nat (j * 1 + 1))))))
           [0..<Suc 1]"
    and rest: "delays st' = 1"
      "last (log st') = logger_error ''Unexpected error''
         (ErrorMeta (Error (''API Error: '' @
              (case response_data_message (AxiosError ?m ?r) of
                 None \<Rightarrow> ?m
               | Some dm \<Rightarrow> if dm = [] then ?m else dm))))"
    by blast
  have n: "[0..<Suc 1] = [0, 1]" by (simp add: upt_conv_Cons)
  have "map (\<lambda>req. map position (snd req)) (twenty_requests st') = [[Fin 1], [Fin 2]]"
    unfolding reqs n slice_nat
    by (simp add: example_tasks_def map_batch_def js_map_def mapToTwentyTask_def)
  then show ?thesis using h1 h4 h5 h6 h7 run rest by simp
qed




text \<open>
  C7: in a runtime with the dates of ECMAScript, and at a reading of the clock that is
  a time value, \<open>validateDate\<close> writes the instant of a date that parses, and the reading
  of the clock otherwise, in the format \<open>YYYY-MM-DDTHH:mm:ss.sssZ\<close> of \<open>toISOString\<close>;
  the output parses, as the instant written, so that it is a valid date and the round
  trip keeps the instant; and normalising the output once more gives the output. That
  the format is read back as written is not assumed but proved (\<open>iso_round_trip\<close>), for
  every time value.
\<close>

theorem C7_validateDate_normalizes:
  assumes "ecmascript_dates rt" and "valid_time now"
  shows "(\<forall>t. Date_parse rt date = Some t \<longrightarrow>
            validateDate rt now date = iso_toISOString t
            \<and> Date_parse rt (validateDate rt now date) = Some t)
       \<and> (Date_parse rt date = None \<longrightarrow>
            validateDate rt now date = iso_toISOString now
            \<and> Date_parse rt (validateDate rt now date) = Some now)
       \<and> (\<exists>t. valid_time t \<and> validateDate rt now date = iso_toISOString t
            \<and> iso_Date_parse (validateDate rt now date) = Some t)
       \<and> validateDate rt later (validateDate rt now date) = validateDate rt now date"
proof -
  define t where "t = (case Date_parse rt date of None \<Rightarrow> now | Some parsed \<Rightarrow> parsed)"
  from assms have writes: "toISOString rt u = iso_toISOString u" if "valid_time u" for u
    using that by (simp add: ecmascript_dates_def)
  from assms have reads: "Date_parse rt s = Some u" if "iso_Date_parse s = Some u" for s u
    using that by (simp add: ecmascript_dates_def)
  from assms have "valid_time u" if "Date_parse rt date = Some u" for u
    using that by (auto simp: ecmascript_dates_def)
  with assms(2) have t: "valid_time t"
    by (simp add: t_def split: option.split)
  have out: "validateDate rt now date = iso_toISOString t"
    unfolding validateDate_def t_def using writes t
    by (simp add: t_def split: option.splits)
  from t have iso: "iso_Date_parse (iso_toISOString t) = Some t" by (rule iso_round_trip)
  then have reread: "Date_parse rt (iso_toISOString t) = Some t" by (rule reads)
  have again: "validateDate rt later (iso_toISOString t) = iso_toISOString t"
    unfolding validateDate_def reread using writes [OF t] by simp
  from t out iso reread again show ?thesis
    by (auto simp: t_def)
qed

theorem C7_validateDate_witness:
  "ecmascript_dates reference_runtime \<and> valid_time 1710498600123
   \<and> Date_parse reference_runtime ''2024-03-15'' = Some 1710460800000
   \<and> validateDate reference_runtime 1710498600123 ''2024-03-15'' = ''2024-03-15T00:00:00.000Z''
   \<and> Date_parse reference_runtime (validateDate reference_runtime 1710498600123 ''2024-03-15'')
        = Some 1710460800000
   \<and> Date_parse reference_runtime ''not a date'' = None
   \<and> validateDate reference_runtime 1710498600123 ''not a date'' = ''2024-03-15T10:30:00.123Z''
   \<and> Date_parse reference_runtime (validateDate reference_runtime 1710498600123 ''not a date'')
        = Some 1710498600123
   \<and> Date_parse reference_runtime ''+010000-01-01'' = Some 253402300800000
   \<and> validateDate reference_runtime 1710498600123 ''+010000-01-01''
        = ''+010000-01-01T00:00:00.000Z''
   \<and> Date_parse reference_runtime
        (validateDate reference_runtime 1710498600123 ''+010000-01-01'')
        = Some 253402300800000"
proof -
  note dates = reference_runtime_dates
  have now: "valid_time 1710498600123" by (simp add: valid_time_def)
  have parsed: "Date_parse reference_runtime ''2024-03-15'' = Some 1710460800000"
    "Date_parse reference_runtime ''+010000-01-01'' = Some 253402300800000"
    by (simp_all add: reference_runtime_def iso_parse_date)
  note undated = reference_parse_undated
  note c7 = C7_validateDate_normalizes [OF dates now]
  from c7 [where date = "''2024-03-15''" and later = 0] parsed(1)
  have 1: "validateDate reference_runtime 1710498600123 ''2024-03-15''
        = iso_toISOString 1710460800000"
    "Date_parse reference_runtime (validateDate reference_runtime 1710498600123 ''2024-03-15'')
        = Some 1710460800000"
    by blast+
  from c7 [where date = "''not a date''" and later = 0] undated
  have 2: "validateDate reference_runtime 1710498600123 ''not a date''
        = iso_toISOString 1710498600123"
    "Date_parse reference_runtime (validateDate reference_runtime 1710498600123 ''not a date'')
        = Some 1710498600123"
    by blast+
  from c7 [where date = "''+010000-01-01''" and later = 0] parsed(2)
  have 3: "validateDate reference_runtime 1710498600123 ''+010000-01-01''
        = iso_toISOString 253402300800000"
    "Date_parse reference_runtime
        (validateDate reference_runtime 1710498600123 ''+010000-01-01'')
        = Some 253402300800000"
    by blast+
  from dates now parsed undated 1 2 3 show ?thesis
    by (simp only: iso_toISOString_examples simp_thms)
qed




text \<open>
  C9: for every source contact, the mapped contact's \<open>phones.primaryPhoneCountryCode\<close>
  is the source record's \<open>Mailing_Country\<close> string, unchanged, whatever the index.
\<close>

theorem C9_country_code_is_mailing_country:
  "primaryPhoneCountryCode (phones (mapToTwentyContact zohoContact index))
     = Some (Mailing_Country zohoContact)"
  by (simp add: mapToTwentyContact_def)

text \<open>
  C10 as stated fails for a value that is not an array but has no \<open>length\<close>: with a
  plain object under \<open>data\<close>, reading \<open>length\<close> gives \<open>undefined\<close>, the loop does not run,
  and the process ends with exit code 0 after logging success, without any POST.
\<close>

theorem C10_plain_object_completes:
  "zoho_get shapeless_world = GetResolves JPlainObject
   \<and> map_option snd (main reference_runtime shapeless_world) = Some 0
   \<and> map_option (\<lambda>r. twenty_requests (fst r)) (main reference_runtime shapeless_world) = Some []
   \<and> map_option (\<lambda>r. last (log (fst r))) (main reference_runtime shapeless_world)
       = Some (logger_info [Text ''Migration completed successfully''])"
proof -
  have cfg: "EnvSchema_parse reference_runtime (process_env shapeless_world) = Inr example_config"
    by (simp add: shapeless_world_def example_world_def example_env_valid)
  have get: "zoho_get shapeless_world = GetResolves JPlainObject"
    by (simp add: shapeless_world_def)
  show ?thesis
    unfolding main_valid_config [OF cfg]
    by (simp add: get migrateTasks_def fetchZohoTasks_def Let_def batch_loop_no_length
        no_effects_def)
qed

text \<open>
  C10, amended: after a successful GET, \<open>fetchZohoTasks\<close> and \<open>fetchZohoContacts\<close> return
  the value of \<open>response.data.data\<close> as it is, whatever it is. When it is \<open>undefined\<close> or
  \<open>null\<close>, the run fails with a \<open>TypeError\<close> (no error of \<open>handleApiError\<close>) before any
  POST. When it is a value whose \<open>length\<close> is \<open>undefined\<close>, the run succeeds without any
  POST.
\<close>

theorem C10_data_returned_unchecked:
  "(zoho_get w = GetResolves d \<longrightarrow> snd (fetchZohoTasks w st) = Inr d)
   \<and> (zoho_get wc = GetResolves dc \<longrightarrow> snd (fetchZohoContacts wc stc) = Inr dc)
   \<and> (zoho_get w = GetResolves d \<and> (d = JUndefined \<or> d = JNull) \<longrightarrow>
        (\<exists>st' msg. migrateTasks rt w cfg st1 = Some (st', Inl (TypeError msg))
            \<and> twenty_requests st' = twenty_requests st1))
   \<and> (zoho_get wc = GetResolves dc \<and> (dc = JUndefined \<or> dc = JNull) \<longrightarrow>
        (\<exists>st' msg. migrateContacts rt wc cfg st2 = Some (st', Inl (TypeError msg))
            \<and> twenty_requests st' = twenty_requests st2))
   \<and> (zoho_get w = GetResolves d \<and> js_length d = Inr None \<longrightarrow>
        (\<exists>st'. migrateTasks rt w cfg st1 = Some (st', Inr ())
            \<and> twenty_requests st' = twenty_requests st1))
   \<and> (zoho_get wc = GetResolves dc \<and> js_length dc = Inr None \<longrightarrow>
        (\<exists>st'. migrateContacts rt wc cfg st2 = Some (st', Inr ())
            \<and> twenty_requests st' = twenty_requests st2))"
proof (intro conjI impI)
  assume "zoho_get w = GetResolves d"
  then show "snd (fetchZohoTasks w st) = Inr d" by (simp add: fetchZohoTasks_def)
next
  assume "zoho_get wc = GetResolves dc"
  then show "snd (fetchZohoContacts wc stc) = Inr dc" by (simp add: fetchZohoContacts_def)
next
  assume a: "zoho_get w = GetResolves d \<and> (d = JUndefined \<or> d = JNull)"
  then have "\<exists>msg. js_length d = Inl (TypeError msg)" by auto
  then obtain msg where "js_length d = Inl (TypeError msg)" ..
  with a migrateTasks_nullish [of w d "TypeError msg" rt cfg st1]
  show "\<exists>st' msg. migrateTasks rt w cfg st1 = Some (st', Inl (TypeError msg))
            \<and> twenty_requests st' = twenty_requests st1"
    by blast
next
  assume a: "zoho_get wc = GetResolves dc \<and> (dc = JUndefined \<or> dc = JNull)"
  then have "\<exists>msg. js_length dc = Inl (TypeError msg)" by auto
  then obtain msg where "js_length dc = Inl (TypeError msg)" ..
  with a migrateContacts_nullish [of wc dc "TypeError msg" rt cfg st2]
  show "\<exists>st' msg. migrateContacts rt wc cfg st2 = Some (st', Inl (TypeError msg))
            \<and> twenty_requests st' = twenty_requests st2"
    by blast
next
  assume "zoho_get w = GetResolves d \<and> js_length d = Inr None"
  with migrateTasks_no_length [of w d rt cfg st1]
  show "\<exists>st'. migrateTasks rt w cfg st1 = Some (st', Inr ())
            \<and> twenty_requests st' = twenty_requests st1"
    by blast
next
  assume "zoho_get wc = GetResolves dc \<and> js_length dc = Inr None"
  with migrateContacts_no_length [of wc dc rt cfg st2]
  show "\<exists>st'. migrateContacts rt wc cfg st2 = Some (st', Inr ())
            \<and> twenty_requests st' = twenty_requests st2"
    by blast
qed

theorem C10_data_witness:
  "zoho_get absent_world = GetResolves JUndefined
   \<and> snd (fetchZohoTasks absent_world (no_effects :: TwentyTask effects)) = Inr JUndefined
   \<and> (\<exists>st' msg. migrateTasks reference_runtime absent_world example_config no_effects
                    = Some (st', Inl (TypeError msg))
          \<and> twenty_requests st' = [])"
proof -
  have get: "zoho_get absent_world = GetResolves JUndefined"
    by (simp add: absent_world_def)
  from C10_data_returned_unchecked
    [where w = absent_world and d = JUndefined and rt = reference_runtime
       and cfg = example_config and st = "no_effects :: TwentyTask effects"
       and ?st1.0 = "no_effects :: TwentyTask effects"
       and wc = contact_world and dc = "JArray example_contacts"
       and stc = "no_effects :: TwentyContact effects"
       and ?st2.0 = "no_effects :: TwentyContact effects"]
    get
  show ?thesis by (auto simp: no_effects_def)
qed

end
